theory Spec2Isabelle
  imports Complex_Main "HOL-Library.Word" "HOL-Library.AList"
begin

section \<open>JavaScript values\<close>

text \<open>
  The FIT parser of \<^verbatim>\<open>src/fitparser/index.ts\<close> works on untyped JavaScript data: decoded
  messages, the caller's \<^verbatim>\<open>fitFileActivity\<close> and the stored activities are plain objects.
  They are embedded as values of the datatype \<open>jsval\<close>; an object is an association list
  in property order, read with \<open>map_of\<close> and written with \<open>AList.update\<close> and
  \<open>AList.delete\<close>.

  Numbers are idealised: a JavaScript number is an exact rational or \<open>NaN\<close>. The
  rounding errors of the arithmetic operations on IEEE doubles, the infinities and the
  negative zero are not represented; the one step of the parser that is sensitive to
  them, the rounding of the distance to one decimal place, goes through the double
  nearest to its operand (\<open>to_double\<close> below). Where
  ECMAScript yields a text or a number that this fragment does not represent (the text of
  a fraction or of a date, the numeric value of a string that is not a plain digit
  sequence, a quotient by zero), the embedding leaves the result unspecified
  (\<open>undefined\<close>), so nothing is proved about it. Strings are lists of 8-bit characters:
  the texts whose code points are below 256.
\<close>

datatype jsnum = NaN | Fin rat

datatype jsval =
    Undefined | Null | Bool bool | Num jsnum | Str string | DateV int
  | Obj "(string \<times> jsval) list" | Arr "jsval list"

type_synonym jsobj = "(string \<times> jsval) list"

datatype error = Error string | TypeError string

subsection \<open>Numbers\<close>

fun num_add :: "jsnum \<Rightarrow> jsnum \<Rightarrow> jsnum" where
  "num_add (Fin a) (Fin b) = Fin (a + b)"
| "num_add _ _ = NaN"

fun num_sub :: "jsnum \<Rightarrow> jsnum \<Rightarrow> jsnum" where
  "num_sub (Fin a) (Fin b) = Fin (a - b)"
| "num_sub _ _ = NaN"

fun num_div :: "jsnum \<Rightarrow> jsnum \<Rightarrow> jsnum" where
  "num_div (Fin a) (Fin b) = (if b = 0 then (if a = 0 then NaN else undefined a) else Fin (a / b))"
| "num_div _ _ = NaN"

text \<open>\<^verbatim>\<open>a <= b\<close> and \<^verbatim>\<open>a >= b\<close> on numbers: false as soon as one side is NaN.\<close>

fun num_le :: "jsnum \<Rightarrow> jsnum \<Rightarrow> bool" where
  "num_le (Fin a) (Fin b) = (a \<le> b)"
| "num_le _ _ = False"

text \<open>\<^verbatim>\<open>Math.round\<close>: the nearest integer, a tie going up.\<close>

fun math_round :: "jsnum \<Rightarrow> jsnum" where
  "math_round NaN = NaN"
| "math_round (Fin q) = Fin (of_int \<lfloor>q + 1 / 2\<rfloor>)"

text \<open>
  The numbers of the code are binary64 doubles. The embedding keeps the results of \<^verbatim>\<open>+\<close>,
  \<^verbatim>\<open>-\<close> and \<^verbatim>\<open>/\<close> exact, and goes to the double where a step depends on the side of a
  tie on which the double lies: \<open>to_double q\<close> is the double nearest to \<open>q\<close>, a tie going
  to the even significand (the rounding of every arithmetic operation of the code), with
  53 significant bits down to the exponent \<open>-1022\<close> and multiples of \<open>2^-1074\<close> below.
  \<open>ilog2 n\<close> is the position of the leading bit of \<open>n \<ge> 1\<close>, \<open>pow2 k\<close> is \<open>2^k\<close> and
  \<open>exponent q\<close>, for \<open>q > 0\<close>, is the \<open>e\<close> with \<open>2^e \<le> q < 2^(e+1)\<close>. A magnitude that
  rounds to \<open>2^1024\<close> (the exponent 1023 with the significand \<open>2^53\<close>) or more is
  \<^verbatim>\<open>Infinity\<close>, which the fragment does not represent.
\<close>

function ilog2 :: "int \<Rightarrow> int" where
  "ilog2 n = (if n < 2 then 0 else 1 + ilog2 (n div 2))"
  by pat_completeness auto
termination by (relation "measure nat") auto

function pow2 :: "int \<Rightarrow> rat" where
  "pow2 k = (if k = 0 then 1
             else if k < 0 then 1 / pow2 (- k)
             else if even k then (let h = pow2 (k div 2) in h * h)
             else 2 * pow2 (k - 1))"
  by pat_completeness auto
termination by (relation "measure (\<lambda>k. if k < 0 then nat (- k) + 1 else nat k)") auto

declare ilog2.simps [simp del] pow2.simps [simp del]

definition exponent :: "rat \<Rightarrow> int" where
  "exponent q =
     (case quotient_of q of (a, b) \<Rightarrow>
        (let k = ilog2 a - ilog2 b in if pow2 k \<le> q then k else k - 1))"

definition round_even :: "rat \<Rightarrow> int" where
  "round_even r =
     (let f = \<lfloor>r\<rfloor>; d = r - of_int f
      in if d < 1 / 2 then f else if 1 / 2 < d then f + 1 else if even f then f else f + 1)"

definition to_double :: "rat \<Rightarrow> rat" where
  "to_double q =
     (if q = 0 then 0
      else (let e = exponent \<bar>q\<bar>;
                u = pow2 (max (e - 52) (- 1074));
                m = round_even (\<bar>q\<bar> / u)
            in if e < 1023 \<or> (e = 1023 \<and> m < 2 ^ 53) then sgn q * of_int m * u
               else undefined q))"



text \<open>
  \<^verbatim>\<open>parseFloat(x.toFixed(1))\<close>, on the double \<open>x\<close> nearest to the operand. \<^verbatim>\<open>toFixed(1)\<close>
  writes the decimal \<open>n / 10\<close> whose distance to the exact value of \<open>x\<close> is the least, the
  larger \<open>n\<close> at a tie, after it has put the sign of a negative \<open>x\<close> aside; from \<open>10^21\<close> on
  it writes the number itself. \<^verbatim>\<open>parseFloat\<close> reads the decimal back: \<open>Fin (n / 10)\<close> is the
  number that the text denotes. So \<open>150 / 1000\<close> gives 0.1, because the double 0.15 lies
  below the tie.
\<close>

fun parseFloat_toFixed1 :: "jsnum \<Rightarrow> jsnum" where
  "parseFloat_toFixed1 NaN = NaN"
| "parseFloat_toFixed1 (Fin q) =
     (let x = to_double q
      in if 10 ^ 21 \<le> \<bar>x\<bar> then Fin x
         else Fin (sgn x * of_int \<lfloor>\<bar>x\<bar> * 10 + 1 / 2\<rfloor> / 10))"

subsection \<open>Conversions\<close>

definition digit_char :: "nat \<Rightarrow> char" where
  "digit_char d = ''0123456789'' ! d"

text \<open>The decimal digits of an integer that is not negative.\<close>

function show_dec :: "int \<Rightarrow> string" where
  "show_dec n =
     (if n < 10 then [digit_char (nat n)]
      else show_dec (n div 10) @ [digit_char (nat (n mod 10))])"
  by pat_completeness auto
termination
  by (relation "measure nat") auto

declare show_dec.simps [simp del]

text \<open>\<^verbatim>\<open>Number::toString\<close>, for the integers below \<open>10^21\<close> (written in decimal).\<close>

definition num_to_string :: "jsnum \<Rightarrow> string" where
  "num_to_string x =
     (case x of
        NaN \<Rightarrow> ''NaN''
      | Fin q \<Rightarrow>
          if of_int \<lfloor>q\<rfloor> = q \<and> \<bar>q\<bar> < 10 ^ 21
          then (if q < 0 then ''-'' @ show_dec (- \<lfloor>q\<rfloor>) else show_dec \<lfloor>q\<rfloor>)
          else undefined q)"

fun join :: "string \<Rightarrow> string list \<Rightarrow> string" where
  "join sep [] = []"
| "join sep [x] = x"
| "join sep (x # y # ys) = x @ sep @ join sep (y # ys)"

text \<open>\<^verbatim>\<open>ToString\<close>, as a template literal and \<^verbatim>\<open>+\<close> apply it.\<close>

fun to_string :: "jsval \<Rightarrow> string" where
  "to_string Undefined = ''undefined''"
| "to_string Null = ''null''"
| "to_string (Bool b) = (if b then ''true'' else ''false'')"
| "to_string (Num x) = num_to_string x"
| "to_string (Str s) = s"
| "to_string (DateV t) = undefined t"
| "to_string (Obj ps) = ''[object Object]''"
| "to_string (Arr xs) =
     join '','' (map (\<lambda>x. case x of Undefined \<Rightarrow> [] | Null \<Rightarrow> [] | _ \<Rightarrow> to_string x) xs)"

definition is_digit :: "char \<Rightarrow> bool" where
  "is_digit c = (c \<in> set ''0123456789'')"

definition read_nat :: "string \<Rightarrow> nat" where
  "read_nat s = foldl (\<lambda>a c. 10 * a + (of_char c - 48)) 0 s"

text \<open>\<^verbatim>\<open>StringToNumber\<close>, for the empty string and for digit sequences.\<close>

definition str_to_number :: "string \<Rightarrow> jsnum" where
  "str_to_number s =
     (if s = [] then Fin 0
      else if list_all is_digit s then Fin (of_nat (read_nat s))
      else undefined s)"

fun to_number :: "jsval \<Rightarrow> jsnum" where
  "to_number Undefined = NaN"
| "to_number Null = Fin 0"
| "to_number (Bool b) = Fin (if b then 1 else 0)"
| "to_number (Num x) = x"
| "to_number (Str s) = str_to_number s"
| "to_number (DateV t) = Fin (of_int t)"
| "to_number (Obj ps) = NaN"
| "to_number (Arr xs) = str_to_number (to_string (Arr xs))"

text \<open>\<^verbatim>\<open>ToPrimitive\<close> without a hint: objects, arrays and dates become their text.\<close>

fun to_primitive :: "jsval \<Rightarrow> jsval" where
  "to_primitive (Obj ps) = Str (to_string (Obj ps))"
| "to_primitive (Arr xs) = Str (to_string (Arr xs))"
| "to_primitive (DateV t) = Str (to_string (DateV t))"
| "to_primitive v = v"

fun is_Str :: "jsval \<Rightarrow> bool" where
  "is_Str (Str s) = True"
| "is_Str _ = False"

text \<open>The operators \<^verbatim>\<open>a + b\<close>, \<^verbatim>\<open>a - b\<close>, \<^verbatim>\<open>a / b\<close>, \<^verbatim>\<open>a <= b\<close> with a number on the right.\<close>

definition js_add :: "jsval \<Rightarrow> jsval \<Rightarrow> jsval" where
  "js_add a b =
     (let pa = to_primitive a; pb = to_primitive b in
      if is_Str pa \<or> is_Str pb then Str (to_string pa @ to_string pb)
      else Num (num_add (to_number pa) (to_number pb)))"

definition js_sub :: "jsval \<Rightarrow> jsval \<Rightarrow> jsnum" where
  "js_sub a b = num_sub (to_number a) (to_number b)"

definition js_div :: "jsval \<Rightarrow> jsval \<Rightarrow> jsnum" where
  "js_div a b = num_div (to_number a) (to_number b)"

text \<open>Truthiness (\<^verbatim>\<open>ToBoolean\<close>) and \<^verbatim>\<open>_.isNil\<close>.\<close>

fun truthy :: "jsval \<Rightarrow> bool" where
  "truthy Undefined = False"
| "truthy Null = False"
| "truthy (Bool b) = b"
| "truthy (Num NaN) = False"
| "truthy (Num (Fin q)) = (q \<noteq> 0)"
| "truthy (Str s) = (s \<noteq> [])"
| "truthy (DateV t) = True"
| "truthy (Obj ps) = True"
| "truthy (Arr xs) = True"

fun isNil :: "jsval \<Rightarrow> bool" where
  "isNil Undefined = True"
| "isNil Null = True"
| "isNil _ = False"

text \<open>\<^verbatim>\<open>a || b\<close>.\<close>

definition js_or :: "jsval \<Rightarrow> jsval \<Rightarrow> jsval" where
  "js_or a b = (if truthy a then a else b)"

text \<open>\<^verbatim>\<open>a && b\<close>.\<close>

definition js_and :: "jsval \<Rightarrow> jsval \<Rightarrow> jsval" where
  "js_and a b = (if truthy a then b else a)"

text \<open>
  \<^verbatim>\<open>a <= b\<close> (and \<^verbatim>\<open>b >= a\<close>): two texts are compared character by character, anything
  else as numbers. Here \<^verbatim>\<open>ToPrimitive\<close> prefers a number, which a date has.
\<close>

fun is_text :: "jsval \<Rightarrow> bool" where
  "is_text (Str s) = True"
| "is_text (Obj ps) = True"
| "is_text (Arr xs) = True"
| "is_text _ = False"

fun str_le :: "string \<Rightarrow> string \<Rightarrow> bool" where
  "str_le [] t = True"
| "str_le (c # cs) [] = False"
| "str_le (c # cs) (d # ds) =
     ((of_char c :: nat) < of_char d \<or> (c = d \<and> str_le cs ds))"

definition js_le :: "jsval \<Rightarrow> jsval \<Rightarrow> bool" where
  "js_le a b =
     (if is_text a \<and> is_text b then str_le (to_string a) (to_string b)
      else num_le (to_number a) (to_number b))"

definition js_ge :: "jsval \<Rightarrow> jsval \<Rightarrow> bool" where
  "js_ge a b = js_le b a"

subsection \<open>Property access\<close>

definition obj_get :: "jsobj \<Rightarrow> string \<Rightarrow> jsval" where
  "obj_get ps k = (case map_of ps k of None \<Rightarrow> Undefined | Some v \<Rightarrow> v)"

text \<open>
  \<^verbatim>\<open>v.k\<close> for the property names the parser reads, none of which a prototype of the
  primitive values, of arrays or of dates defines. On \<^verbatim>\<open>undefined\<close> and \<^verbatim>\<open>null\<close> the
  access would throw; every access of the source is on a truthy value or guarded by
  \<^verbatim>\<open>?.\<close> (\<open>opt_prop\<close>).
\<close>

fun js_prop :: "jsval \<Rightarrow> string \<Rightarrow> jsval" where
  "js_prop (Obj ps) k = obj_get ps k"
| "js_prop _ k = Undefined"

definition opt_prop :: "jsval \<Rightarrow> string \<Rightarrow> jsval" where
  "opt_prop v k = (if isNil v then Undefined else js_prop v k)"

text \<open>\<^verbatim>\<open>v.k = x\<close> on an object.\<close>

fun set_prop :: "jsval \<Rightarrow> string \<Rightarrow> jsval \<Rightarrow> jsval" where
  "set_prop (Obj ps) k x = Obj (AList.update k x ps)"
| "set_prop v k x = v"

text \<open>
  \<^verbatim>\<open>xs[k]\<close> on an array: an element when \<open>k\<close> is a number that is an index, and
  \<^verbatim>\<open>undefined\<close> for every other number, for booleans, \<^verbatim>\<open>null\<close>, \<^verbatim>\<open>undefined\<close> and plain
  objects. A string key can also name \<^verbatim>\<open>length\<close> or a method of the prototype, which
  the value type does not represent.
\<close>

definition arr_index :: "jsval list \<Rightarrow> jsval \<Rightarrow> jsval" where
  "arr_index xs k =
     (case k of
        Num (Fin q) \<Rightarrow>
          if of_int \<lfloor>q\<rfloor> = q \<and> 0 \<le> q \<and> q < of_nat (length xs) then xs ! nat \<lfloor>q\<rfloor>
          else Undefined
      | Str s \<Rightarrow> undefined s
      | Arr ys \<Rightarrow> undefined ys
      | DateV t \<Rightarrow> undefined t
      | _ \<Rightarrow> Undefined)"

text \<open>\<^verbatim>\<open>v[k]\<close>: the key of an object property is the text of \<open>k\<close>.\<close>

fun js_index :: "jsval \<Rightarrow> jsval \<Rightarrow> jsval" where
  "js_index (Obj ps) k = obj_get ps (to_string k)"
| "js_index (Arr xs) k = arr_index xs k"
| "js_index (Str s) k = undefined s k"
| "js_index _ k = Undefined"

subsection \<open>Strings\<close>

text \<open>\<^verbatim>\<open>String.fromCharCode\<close> of a byte.\<close>

definition fromCharCode :: "8 word \<Rightarrow> char" where
  "fromCharCode b = char_of (unat b)"

text \<open>\<^verbatim>\<open>s.replace(/\_/g, "")\<close>, \<^verbatim>\<open>s.replace(/\s/g, "")\<close> and
  \<^verbatim>\<open>s.replace(/[\u{0080}-\u{FFFF}]/gu, "")\<close> on 8-bit strings.\<close>

definition strip_underscores :: "string \<Rightarrow> string" where
  "strip_underscores s = filter (\<lambda>c. c \<noteq> CHR ''_'') s"

definition is_space :: "char \<Rightarrow> bool" where
  "is_space c = ((of_char c :: nat) \<in> set [9, 10, 11, 12, 13, 32, 160])"

definition strip_spaces :: "string \<Rightarrow> string" where
  "strip_spaces s = filter (\<lambda>c. \<not> is_space c) s"

definition strip_non_ascii :: "string \<Rightarrow> string" where
  "strip_non_ascii s = filter (\<lambda>c. (of_char c :: nat) < 128) s"

subsection \<open>The lodash functions the parser calls\<close>

text \<open>
  \<^verbatim>\<open>baseSum\<close> adds the values that are not \<^verbatim>\<open>undefined\<close>, starting from \<^verbatim>\<open>undefined\<close>;
  \<^verbatim>\<open>_.sumBy(xs, key)\<close> is 0 on the empty array; \<^verbatim>\<open>_.mean\<close> divides the sum by the length.
\<close>

fun baseSum :: "jsval list \<Rightarrow> jsval \<Rightarrow> jsval" where
  "baseSum [] result = result"
| "baseSum (current # vs) result =
     baseSum vs
       (if current \<noteq> Undefined
        then (if result = Undefined then current else js_add result current)
        else result)"

definition sumBy :: "jsval list \<Rightarrow> string \<Rightarrow> jsval" where
  "sumBy xs key = (if xs \<noteq> [] then baseSum (map (\<lambda>x. js_prop x key) xs) Undefined else Num (Fin 0))"

definition mean :: "jsval list \<Rightarrow> jsval" where
  "mean xs =
     (if xs \<noteq> [] then Num (js_div (baseSum xs Undefined) (Num (Fin (of_nat (length xs)))))
      else Num NaN)"

text \<open>\<^verbatim>\<open>Object.values(_.pick(session, keys))\<close>: the values of the listed properties that
  the object has, in the order of the list.\<close>

fun pick_values :: "jsval \<Rightarrow> string list \<Rightarrow> jsval list" where
  "pick_values (Obj ps) keys = map (obj_get ps) (filter (\<lambda>k. k \<in> fst ` set ps) keys)"
| "pick_values _ keys = []"

text \<open>\<^verbatim>\<open>_.without(xs, null, undefined)\<close>.\<close>

definition without_nil :: "jsval list \<Rightarrow> jsval list" where
  "without_nil xs = filter (\<lambda>v. \<not> isNil v) xs"

text \<open>\<^verbatim>\<open>_.uniqBy\<close>: the first element of each key, in the order of the array.\<close>

fun baseUniq :: "('a \<Rightarrow> 'b) \<Rightarrow> 'a list \<Rightarrow> 'b list \<Rightarrow> 'a list" where
  "baseUniq f [] seen = []"
| "baseUniq f (x # xs) seen =
     (if f x \<in> set seen then baseUniq f xs seen else x # baseUniq f xs (f x # seen))"

definition uniqBy :: "'a list \<Rightarrow> ('a \<Rightarrow> 'b) \<Rightarrow> 'a list" where
  "uniqBy xs f = baseUniq f xs []"

section \<open>\<^verbatim>\<open>FitParser.parse\<close>\<close>

subsection \<open>The record loop\<close>

text \<open>
  \<^verbatim>\<open>readRecord\<close> of \<^verbatim>\<open>./binary\<close> is not among the sources: it is a parameter of the
  embedding, and every statement below holds for each \<^verbatim>\<open>readRecord\<close>. Its type is read
  off the call in the loop: a function of the arguments that the loop passes
  (\<^verbatim>\<open>blob, messageTypes, developerFields, loopIndex, options, startDate, pausedTime\<close>) that
  returns \<^verbatim>\<open>nextIndex\<close>, \<^verbatim>\<open>messageType\<close> and \<^verbatim>\<open>message\<close>, together with the two arrays
  \<^verbatim>\<open>messageTypes\<close> and \<^verbatim>\<open>developerFields\<close> as it leaves them (it is handed the arrays
  themselves), or throws. State that the module might keep from one call to the next
  is not represented.
\<close>

type_synonym ('m, 'f) readRecord =
  "8 word list \<Rightarrow> 'm list \<Rightarrow> 'f list \<Rightarrow> int \<Rightarrow> jsval \<Rightarrow> jsval \<Rightarrow> jsnum
     \<Rightarrow> error + (int \<times> string \<times> jsval \<times> 'm list \<times> 'f list)"

text \<open>The arrays that the loop fills, one for each \<^verbatim>\<open>case\<close> that pushes.\<close>

datatype bucket =
    Laps | Sessions | WorkoutSteps | Events | Lengths | FieldDescriptions | Devices
  | Applications | DiveGases | CoursePoints | Sports | FileIds | Definitions | Monitors
  | MonitorInfo | Stress

text \<open>
  The state of the loop: the arrays, the properties assigned on \<^verbatim>\<open>fitObj\<close>, and the two
  variables of the timer accounting.
\<close>

record agg =
  lists :: "bucket \<Rightarrow> jsval list"
  fitObj :: jsobj
  lastStopTimestamp :: jsval
  pausedTime :: jsnum

definition push :: "bucket \<Rightarrow> jsval \<Rightarrow> agg \<Rightarrow> agg" where
  "push b m st = st\<lparr>lists := (lists st)(b := lists st b @ [m])\<rparr>"

text \<open>The \<^verbatim>\<open>"event"\<close> case, before the push.\<close>

definition timer_event :: "agg \<Rightarrow> jsval \<Rightarrow> agg" where
  "timer_event st m =
     (if js_prop m ''event'' = Str ''timer'' then
        (if js_prop m ''event_type'' = Str ''stop_all'' then
           st\<lparr>lastStopTimestamp := js_prop m ''timestamp''\<rparr>
         else if js_prop m ''event_type'' = Str ''start'' \<and> truthy (lastStopTimestamp st) then
           st\<lparr>pausedTime :=
                num_add (pausedTime st)
                  (num_div (js_sub (js_prop m ''timestamp'') (lastStopTimestamp st)) (Fin 1000))\<rparr>
         else st)
      else st)"

text \<open>
  The \<^verbatim>\<open>"device_info"\<close> case: the product name is filled in from the table
  \<^verbatim>\<open>FIT.types.product\<close> (of \<^verbatim>\<open>./fit\<close>, not among the sources: the parameter \<open>product\<close>).
  The array holds the message object itself, so it sees the assignment.
\<close>

definition product_name :: "jsobj \<Rightarrow> jsval \<Rightarrow> jsval" where
  "product_name product m =
     (if \<not> truthy (js_prop m ''product_name'') \<and> truthy (js_prop m ''manufacturer'')
         \<and> truthy (js_prop m ''product'') then
        (let productNames = js_index (Obj product) (js_prop m ''manufacturer'') in
         if truthy productNames \<and> truthy (js_index productNames (js_prop m ''product''))
         then set_prop m ''product_name'' (js_index productNames (js_prop m ''product''))
         else m)
      else m)"

text \<open>The body of the loop after \<^verbatim>\<open>readRecord\<close>: \<^verbatim>\<open>if (message) switch (messageType)\<close>.\<close>

definition dispatch :: "jsobj \<Rightarrow> agg \<Rightarrow> string \<Rightarrow> jsval \<Rightarrow> agg" where
  "dispatch product st mt m =
     (if \<not> truthy m then st
      else if mt = ''lap'' then push Laps m st
      else if mt = ''session'' then push Sessions m st
      else if mt = ''workout_step'' then push WorkoutSteps m st
      else if mt = ''event'' then push Events m (timer_event st m)
      else if mt = ''length'' then push Lengths m st
      else if mt = ''field_description'' then push FieldDescriptions m st
      else if mt = ''device_info'' then push Devices (product_name product m) st
      else if mt = ''developer_data_id'' then push Applications m st
      else if mt = ''dive_gas'' then push DiveGases m st
      else if mt = ''course_point'' then push CoursePoints m st
      else if mt = ''sport'' then push Sports m st
      else if mt = ''file_id'' then push FileIds m st
      else if mt = ''definition'' then push Definitions m st
      else if mt = ''monitoring'' then push Monitors m st
      else if mt = ''monitoring_info'' then push MonitorInfo m st
      else if mt = ''stress_level'' then push Stress m st
      else if mt = ''software'' then st\<lparr>fitObj := AList.update ''software'' m (fitObj st)\<rparr>
      else if mt \<noteq> [] then st\<lparr>fitObj := AList.update mt m (fitObj st)\<rparr>
      else st)"

text \<open>
  \<^verbatim>\<open>while (loopIndex < crcStart)\<close>. Nothing bounds the number of rounds when
  \<^verbatim>\<open>readRecord\<close> does not advance the cursor: a run that does not end is \<open>None\<close>.
  \<^verbatim>\<open>startDate\<close> is never assigned and stays \<^verbatim>\<open>undefined\<close>.
\<close>

partial_function (option) record_loop ::
  "('m, 'f) readRecord \<Rightarrow> jsobj \<Rightarrow> 8 word list \<Rightarrow> jsval \<Rightarrow> int \<Rightarrow> int \<Rightarrow> 'm list \<Rightarrow> 'f list
     \<Rightarrow> agg \<Rightarrow> (error + agg) option"
where
  "record_loop readRecord product blob options crcStart loopIndex messageTypes developerFields st =
     (if loopIndex < crcStart then
        (case readRecord blob messageTypes developerFields loopIndex options Undefined
                (pausedTime st) of
           Inl e \<Rightarrow> Some (Inl e)
         | Inr (nextIndex, messageType, message, messageTypes', developerFields') \<Rightarrow>
             record_loop readRecord product blob options crcStart nextIndex messageTypes'
               developerFields' (dispatch product st messageType message))
      else Some (Inr st))"

declare record_loop.simps [code]

subsection \<open>Sessions\<close>

text \<open>The table \<^verbatim>\<open>fields\<close>, in the order \<^verbatim>\<open>for (let field in fields)\<close> visits it.\<close>

datatype fieldKey = Key string | Keys "string list"

definition fields :: "(string \<times> fieldKey) list" where
  "fields =
     [(''primaryBenefit'', Key ''primary_benefit''),
      (''intensityFactor'', Key ''intensity_factor''),
      (''tss'', Key ''training_stress_score''),
      (''trainingLoad'', Key ''training_load''),
      (''aerobicTrainingEffect'', Key ''total_training_effect''),
      (''anaerobicTrainingEffect'', Key ''total_anaerobic_effect''),
      (''pedalSmoothness'',
         Keys [''avg_combined_pedal_smoothness'', ''avg_left_pedal_smoothness'',
               ''avg_right_pedal_smoothness'']),
      (''pedalTorqueEffect'',
         Keys [''avg_left_torque_effectiveness'', ''avg_right_torque_effectiveness'']),
      (''pedalBalance'', Key ''left_right_balance'')]"

text \<open>The \<^verbatim>\<open>value\<close> that one round of the inner loop computes from a session.\<close>

fun session_value :: "jsval \<Rightarrow> fieldKey \<Rightarrow> jsval" where
  "session_value session (Keys ks) =
     (let sessionValues = without_nil (pick_values session ks) in
      if sessionValues \<noteq> [] then mean sessionValues else Undefined)"
| "session_value session (Key k) = js_prop session k"

text \<open>\<^verbatim>\<open>if (!fitFileActivity[field] && !_.isNil(value)) fitFileActivity[field] = value\<close>.\<close>

definition assign_field :: "jsval \<Rightarrow> jsobj \<Rightarrow> string \<times> fieldKey \<Rightarrow> jsobj" where
  "assign_field session a fk =
     (let value = session_value session (snd fk) in
      if \<not> truthy (obj_get a (fst fk)) \<and> \<not> isNil value then AList.update (fst fk) value a
      else a)"

definition append_session :: "jsobj \<Rightarrow> jsval \<Rightarrow> jsobj" where
  "append_session a session = foldl (assign_field session) a fields"

definition append_sessions :: "jsobj \<Rightarrow> jsval list \<Rightarrow> jsobj" where
  "append_sessions a sessions = foldl append_session a sessions"

text \<open>
  The sport profile. \<^verbatim>\<open>sp.name.replace\<close> is a call on a truthy value: when the name is
  not a string, it throws a \<^verbatim>\<open>TypeError\<close>, and the activity stays as it is at that point.
\<close>

fun sport_profile :: "jsval list \<Rightarrow> jsobj \<Rightarrow> error option \<times> jsobj" where
  "sport_profile [] a = (None, a)"
| "sport_profile (sp # sps) a =
     (if truthy (js_prop sp ''name'') then
        (case js_prop sp ''name'' of
           Str s \<Rightarrow> sport_profile sps (AList.update ''sportProfile'' (Str (strip_non_ascii s)) a)
         | _ \<Rightarrow> (Some (TypeError ''sp.name.replace is not a function''), a))
      else sport_profile sps a)"

text \<open>\<^verbatim>\<open>if (fitObj.sessions?.length > 0) { ... }\<close>.\<close>

definition from_sessions :: "jsval list \<Rightarrow> jsval list \<Rightarrow> jsobj \<Rightarrow> error option \<times> jsobj" where
  "from_sessions sessions sports a =
     (if sessions \<noteq> [] then
        (let a1 = AList.update ''distance''
                    (Num (parseFloat_toFixed1
                            (js_div (sumBy sessions ''total_distance'') (Num (Fin 1000))))) a;
             a2 = AList.update ''totalTime''
                    (Num (math_round (to_number (sumBy sessions ''total_elapsed_time'')))) a1
         in sport_profile sports (append_sessions a2 sessions))
      else (None, a))"

subsection \<open>The steps after the sessions\<close>

definition round_field :: "jsobj \<Rightarrow> string \<Rightarrow> jsobj" where
  "round_field a field =
     (if truthy (obj_get a field)
      then AList.update field (Num (math_round (to_number (obj_get a field)))) a
      else a)"

definition round_fields :: "jsobj \<Rightarrow> jsobj" where
  "round_fields a = foldl round_field a [''trainingLoad'', ''pedalSmoothness'', ''pedalTorqueEffect'']"

text \<open>\<^verbatim>\<open>fitObj.workout\<close> is the last message of kind \<^verbatim>\<open>"workout"\<close>, stored by the
  \<^verbatim>\<open>default\<close> case; none of the assignments after the loop names it.\<close>

definition add_workout :: "jsobj \<Rightarrow> jsobj \<Rightarrow> jsobj" where
  "add_workout fo a =
     (let workout = obj_get fo ''workout'';
          a1 = (if truthy (opt_prop workout ''wkt_name'')
                then AList.update ''workoutName'' (js_prop workout ''wkt_name'') a else a)
      in if truthy (opt_prop workout ''notes'')
         then AList.update ''workoutNotes'' (js_prop workout ''notes'') a1 else a1)"

definition getDeviceString :: "jsval \<Rightarrow> string" where
  "getDeviceString d =
     strip_spaces (strip_underscores
       (to_string (js_prop d ''manufacturer'') @ ''.'' @
        to_string (js_or (js_or (js_or (js_prop d ''product_name'') (js_prop d ''device_type''))
                      (js_prop d ''source_type'')) (js_prop d ''device_index'')) @ ''.'' @
        to_string (js_prop d ''serial_number'')))"

definition device_filter :: "jsval \<Rightarrow> bool" where
  "device_filter d = truthy (js_and (js_prop d ''manufacturer'') (js_prop d ''serial_number''))"

definition add_devices :: "jsval list \<Rightarrow> jsobj \<Rightarrow> jsobj" where
  "add_devices devices a =
     (if devices \<noteq> [] then
        (let validDevices = uniqBy (filter device_filter devices) getDeviceString;
             a1 = AList.update ''devices'' (Arr (map (\<lambda>d. Str (getDeviceString d)) validDevices)) a;
             batteryDevices = filter (\<lambda>d. truthy (js_prop d ''battery_status'')) validDevices
         in if batteryDevices \<noteq> [] then
              AList.update ''deviceBattery''
                (Arr (map (\<lambda>d. Obj [(''id'', Str (getDeviceString d)),
                                     (''status'', js_prop d ''battery_status'')]) batteryDevices)) a1
            else a1)
      else a)"

definition primaryBenefits :: "jsval list" where
  "primaryBenefits =
     [Str ''None'', Str ''Recovery'', Str ''Base'', Str ''Tempo'', Str ''Threshold'',
      Str ''VO2Max'', Str ''Anaerobic'', Str ''Sprint'']"

definition decode_primaryBenefit :: "jsobj \<Rightarrow> jsobj" where
  "decode_primaryBenefit a =
     (if truthy (obj_get a ''primaryBenefit'')
      then AList.update ''primaryBenefit''
             (js_index (Arr primaryBenefits) (obj_get a ''primaryBenefit'')) a
      else a)"

text \<open>\<^verbatim>\<open>balance?.right && balance?.value <= 10000\<close>.\<close>

definition balance_ok :: "jsval \<Rightarrow> bool" where
  "balance_ok balance \<longleftrightarrow>
     truthy (opt_prop balance ''right'') \<and> js_le (opt_prop balance ''value'') (Num (Fin 10000))"

definition decode_pedalBalance :: "jsobj \<Rightarrow> jsobj" where
  "decode_pedalBalance a =
     (let balance = obj_get a ''pedalBalance'' in
      if balance_ok balance
      then
        (let right = math_round (js_div (js_prop balance ''value'') (Num (Fin 100)));
             left = num_sub (Fin 100) right
         in AList.update ''pedalBalance''
              (Str (''L '' @ num_to_string left @ ''% / R '' @ num_to_string right @ ''%'')) a)
      else AList.delete ''pedalBalance'' a)"

text \<open>Everything after the loop, on the arrays and properties the loop has left.\<close>

definition aggregate :: "agg \<Rightarrow> jsobj \<Rightarrow> error option \<times> jsobj" where
  "aggregate st fitFileActivity =
     (case from_sessions (lists st Sessions) (lists st Sports) fitFileActivity of
        (Some e, a) \<Rightarrow> (Some e, a)
      | (None, a) \<Rightarrow>
          (None,
           decode_pedalBalance (decode_primaryBenefit
             (add_devices (lists st Devices) (add_workout (fitObj st) (round_fields a))))))"

subsection \<open>The header and the whole function\<close>

definition byte :: "8 word list \<Rightarrow> nat \<Rightarrow> int" where
  "byte blob i = uint (blob ! i)"

text \<open>\<^verbatim>\<open>x << n\<close>: a shift of 32-bit integers, with a signed result.\<close>

definition shl :: "int \<Rightarrow> nat \<Rightarrow> int" where
  "shl x n = sint (push_bit n (word_of_int x :: 32 word))"

definition fileTypeString :: "8 word list \<Rightarrow> string" where
  "fileTypeString blob = map (\<lambda>i. fromCharCode (blob ! i)) [8 ..< 12]"

definition dataLength :: "8 word list \<Rightarrow> int" where
  "dataLength blob = byte blob 4 + shl (byte blob 5) 8 + shl (byte blob 6) 16 + shl (byte blob 7) 24"

definition default_options :: jsval where
  "default_options =
     Obj [(''force'', Bool True), (''speedUnit'', Str ''m/s''), (''lengthUnit'', Str ''m''),
          (''temperatureUnit'', Str ''celsius''), (''elapsedRecordField'', Bool False)]"

definition init_agg :: "8 word list \<Rightarrow> agg" where
  "init_agg blob =
     \<lparr>lists = (\<lambda>b. []),
      fitObj = [(''protocolVersion'', Num (Fin (of_int (byte blob 1)))),
                (''profileVersion'', Num (Fin (of_int (byte blob 2 + shl (byte blob 3) 8))))],
      lastStopTimestamp = Undefined,
      pausedTime = Fin 0\<rparr>"

text \<open>
  \<^verbatim>\<open>parse(user, fitFileActivity, rawData, options)\<close>. The buffer \<open>blob\<close> is
  \<^verbatim>\<open>new Uint8Array(getArrayBuffer(rawData))\<close>; the user and the two checksums only reach
  the log, which is not embedded. The function is written in three parts: the checks of
  the header, which throw; the loop from its first state, on the options the first
  statement provides when the caller gave none; and the steps after the loop.
\<close>

definition check_header :: "8 word list \<Rightarrow> error option" where
  "check_header blob =
     (if length blob < 12 then Some (Error ''File to small to be a FIT file'')
      else if byte blob 0 \<noteq> 14 \<and> byte blob 0 \<noteq> 12 then Some (Error ''Incorrect header size'')
      else if fileTypeString blob \<noteq> ''.FIT'' then Some (Error ''Missing '.FIT' in header'')
      else None)"

definition decode ::
  "('m, 'f) readRecord \<Rightarrow> jsobj \<Rightarrow> 8 word list \<Rightarrow> jsval \<Rightarrow> (error + agg) option"
where
  "decode readRecord product blob options =
     (let headerLength = byte blob 0;
          crcStart = dataLength blob + headerLength
      in record_loop readRecord product blob
           (if \<not> truthy options then default_options else options)
           crcStart headerLength [] [] (init_agg blob))"

text \<open>
  The result is \<open>None\<close> when the loop does not end, and otherwise the error thrown, if
  any, with the \<^verbatim>\<open>fitFileActivity\<close> object as the call leaves it.
\<close>

definition parse ::
  "('m, 'f) readRecord \<Rightarrow> jsobj \<Rightarrow> jsobj \<Rightarrow> 8 word list \<Rightarrow> jsval \<Rightarrow> (error option \<times> jsobj) option"
where
  "parse readRecord product fitFileActivity blob options =
     (case check_header blob of
        Some e \<Rightarrow> Some (Some e, fitFileActivity)
      | None \<Rightarrow>
          (case decode readRecord product blob options of
             None \<Rightarrow> None
           | Some (Inl e) \<Rightarrow> Some (Some e, fitFileActivity)
           | Some (Inr st) \<Rightarrow> Some (aggregate st fitFileActivity)))"

subsection \<open>A decoder for the examples\<close>

text \<open>
  The examples below need a concrete \<^verbatim>\<open>readRecord\<close>. \<open>scripted\<close> replays a list of
  messages: the record at the \<open>i\<close>-th byte of the data section is the \<open>i\<close>-th message of
  the list, and is one byte long. \<open>fit_file n\<close> is a buffer with a 12-byte header and a
  data section of \<open>n\<close> bytes.
\<close>

definition scripted :: "(string \<times> jsval) list \<Rightarrow> (unit, unit) readRecord" where
  "scripted script blob messageTypes developerFields loopIndex options startDate paused =
     (let i = nat (loopIndex - 12) in
      if i < length script
      then Inr (loopIndex + 1, fst (script ! i), snd (script ! i), messageTypes, developerFields)
      else Inl (Error ''no such record''))"

definition fit_file :: "nat \<Rightarrow> 8 word list" where
  "fit_file n = [12, 16, 0, 0, of_nat n, 0, 0, 0, 46, 70, 73, 84] @ replicate n 0"

text \<open>The state in which the loop ends on \<open>fit_file (length script)\<close> with this decoder
  and an empty product table.\<close>

definition replay :: "(string \<times> jsval) list \<Rightarrow> agg" where
  "replay script =
     foldl (\<lambda>st (mt, m). dispatch [] st mt m) (init_agg (fit_file (length script))) script"


text \<open>A device-info message of one manufacturer and serial number, with a product name
  and further properties.\<close>

definition device_info :: "string \<Rightarrow> jsobj \<Rightarrow> string \<times> jsval" where
  "device_info name extra =
     (''device_info'',
      Obj ([(''manufacturer'', Str ''garmin''), (''serial_number'', Num (Fin 123456)),
            (''product_name'', Str name)] @ extra))"


text \<open>A session message with a training stress score.\<close>

definition tss_session :: "rat \<Rightarrow> string \<times> jsval" where
  "tss_session x =
     (''session'',
      Obj [(''total_distance'', Num (Fin 25000)), (''total_elapsed_time'', Num (Fin 3600)),
           (''training_stress_score'', Num (Fin x))])"

text \<open>A session message with a primary-benefit code, and one with a pedal balance.\<close>

definition benefit_session :: "rat \<Rightarrow> string \<times> jsval" where
  "benefit_session c =
     (''session'',
      Obj [(''total_distance'', Num (Fin 25000)), (''total_elapsed_time'', Num (Fin 3600)),
           (''primary_benefit'', Num (Fin c))])"

definition balance_session :: "rat \<Rightarrow> bool \<Rightarrow> string \<times> jsval" where
  "balance_session v r =
     (''session'',
      Obj [(''total_distance'', Num (Fin 25000)), (''total_elapsed_time'', Num (Fin 3600)),
           (''left_right_balance'', Obj [(''value'', Num (Fin v)), (''right'', Bool r)])])"

section \<open>\<^verbatim>\<open>FitParser.getMatchingActivity\<close>\<close>

text \<open>
  The document store (\<^verbatim>\<open>database.search\<close>) is outside the sources and its answers change
  with time: it is the parameter \<open>search\<close>, whose first argument counts the searches the
  call has made before. It returns the stored activities, which are objects, or throws.
\<close>

type_synonym search = "nat \<Rightarrow> string \<Rightarrow> jsval \<Rightarrow> error + jsobj list"

text \<open>\<^verbatim>\<open>dayjs(d).add(ms).toDate()\<close> on a date.\<close>

fun date_add :: "jsval \<Rightarrow> int \<Rightarrow> jsval" where
  "date_add (DateV t) ms = DateV (t + ms)"
| "date_add v ms = undefined v ms"

definition toLowerCase :: "string \<Rightarrow> string" where
  "toLowerCase s =
     map (\<lambda>c. let n = (of_char c :: nat) in
               if (65 \<le> n \<and> n \<le> 90) \<or> (192 \<le> n \<and> n \<le> 222 \<and> n \<noteq> 215) then char_of (n + 32)
               else c) s"

text \<open>\<^verbatim>\<open>s.includes(t)\<close>.\<close>

fun str_includes :: "string \<Rightarrow> string \<Rightarrow> bool" where
  "str_includes [] t = (t = [])"
| "str_includes (c # cs) t = (take (length t) (c # cs) = t \<or> str_includes cs t)"

text \<open>\<^verbatim>\<open>activity.device?.toLowerCase().includes(source)\<close>.\<close>

definition device_includes :: "jsval \<Rightarrow> string \<Rightarrow> error + bool" where
  "device_includes activity source =
     (let device = js_prop activity ''device'' in
      if isNil device then Inr False
      else (case device of
              Str s \<Rightarrow> Inr (str_includes (toLowerCase s) source)
            | _ \<Rightarrow> Inl (TypeError ''activity.device.toLowerCase is not a function'')))"

text \<open>
  From \<^verbatim>\<open>if (activities.length == 0)\<close> to the last \<^verbatim>\<open>return\<close>. When \<^verbatim>\<open>find\<close> has no
  result, the branch \<^verbatim>\<open>if (!result)\<close> reads \<^verbatim>\<open>result.totalTime\<close> for its log line, which
  throws.
\<close>

definition select_activity :: "jsval \<Rightarrow> jsobj list \<Rightarrow> error + jsval" where
  "select_activity activity activities =
     (if activities = [] then Inr Null
      else
        (let minTime = Num (js_sub (js_prop activity ''totalTime'') (Num (Fin 60)));
             maxTime = js_add (js_prop activity ''totalTime'') (Num (Fin 60))
         in case List.find (\<lambda>a. js_ge (obj_get a ''totalTime'') minTime
                                 \<and> js_le (obj_get a ''totalTime'') maxTime) activities of
              None \<Rightarrow> Inl (TypeError ''Cannot read properties of undefined'')
            | Some result \<Rightarrow> Inr (Obj result)))"

text \<open>The body of the \<^verbatim>\<open>try\<close> block.\<close>

definition find_activities :: "search \<Rightarrow> jsval \<Rightarrow> jsval \<Rightarrow> string \<Rightarrow> error + jsobj list" where
  "find_activities search user activity source =
     (let activityDate = js_prop activity ''dateStart'';
          dateFrom = date_add activityDate (- 60000);
          dateTo = date_add activityDate 60000;
          wh = Arr [Arr [Str ''userId'', Str ''=='', js_prop user ''id''],
                    Arr [Str ''dateStart'', Str ''>='', dateFrom],
                    Arr [Str ''dateStart'', Str ''<='', dateTo]]
      in if source = ''any'' then
           (case search 0 ''garmin'' wh of
              Inl e \<Rightarrow> Inl e
            | Inr fromGarmin \<Rightarrow>
                (case search 1 ''wahoo'' wh of
                   Inl e \<Rightarrow> Inl e
                 | Inr fromWahoo \<Rightarrow> Inr (fromGarmin @ fromWahoo)))
         else
           (case search 0 source wh of
              Inl e \<Rightarrow> Inl e
            | Inr activities \<Rightarrow>
                if activities = [] then
                  (case device_includes activity source of
                     Inl e \<Rightarrow> Inl e
                   | Inr retry \<Rightarrow> if retry then search 1 source wh else Inr activities)
                else Inr activities))"

text \<open>
  \<^verbatim>\<open>getMatchingActivity(user, activity, source)\<close>: the \<^verbatim>\<open>catch\<close> block logs the error and
  returns nothing, so the result of a call that threw is \<^verbatim>\<open>undefined\<close>. A call without
  \<^verbatim>\<open>source\<close> is the call with the empty text, which \<^verbatim>\<open>!source\<close> treats alike.
\<close>

definition getMatchingActivity :: "search \<Rightarrow> jsval \<Rightarrow> jsval \<Rightarrow> string \<Rightarrow> jsval" where
  "getMatchingActivity search user activity source0 =
     (let source = (if source0 = [] then ''any'' else source0) in
      case find_activities search user activity source of
        Inl e \<Rightarrow> Undefined
      | Inr activities \<Rightarrow>
          (case select_activity activity activities of
             Inl e \<Rightarrow> Undefined
           | Inr result \<Rightarrow> result))"


text \<open>
  The reading of the tolerance on durations that are numbers: the total time of the
  stored activity \<open>a\<close> lies within 60 seconds of \<open>T\<close>, the bounds included.
\<close>

definition within_tolerance :: "rat \<Rightarrow> jsobj \<Rightarrow> bool" where
  "within_tolerance T a =
     (case obj_get a ''totalTime'' of
        Num (Fin t) \<Rightarrow> T - 60 \<le> t \<and> t \<le> T + 60
      | _ \<Rightarrow> False)"

subsection \<open>A store for the examples\<close>

text \<open>A store whose \<^verbatim>\<open>garmin\<close> collection answers every search with the same activities
  and whose other collections are empty; a stored activity; a user and a Strava activity
  of 3600 seconds.\<close>

definition stored :: "jsobj list \<Rightarrow> search" where
  "stored xs n source wh = (if source = ''garmin'' then Inr xs else Inr [])"

definition candidate :: "string \<Rightarrow> int \<Rightarrow> rat \<Rightarrow> jsobj" where
  "candidate i d t = [(''id'', Str i), (''dateStart'', DateV d), (''totalTime'', Num (Fin t))]"

definition example_user :: jsval where
  "example_user = Obj [(''id'', Str ''u1'')]"

definition example_activity :: jsval where
  "example_activity =
     Obj [(''id'', Num (Fin 77)), (''dateStart'', DateV 1700000000000),
          (''totalTime'', Num (Fin 3600))]"

section \<open>The header checks\<close>

lemma unat_byte_eq: "n < 256 \<Longrightarrow> unat (b :: 8 word) = n \<longleftrightarrow> b = of_nat n"
proof
  assume u: "unat b = n"
  have "word_of_nat (unat b) = b" by simp
  then show "b = of_nat n" unfolding u by (rule sym)
next
  assume n: "n < 256" and "b = of_nat n"
  then have "unat b = n mod 2 ^ LENGTH(8)" by (simp only: unat_of_nat)
  then show "unat b = n" using n by simp
qed

lemma fromCharCode_eq_iff: "fromCharCode b = c \<longleftrightarrow> b = of_nat (of_char c)"
proof -
  have lt: "unat b < 256" using unsigned_less [of b, where ?'a = nat] by simp
  then have "take_bit 8 (unat b) = unat b" by (simp add: take_bit_nat_eq_self_iff)
  then have "fromCharCode b = c \<longleftrightarrow> unat b = of_char c"
    unfolding fromCharCode_def char_of_eq_iff by simp
  moreover have "(of_char c :: nat) < 256"
    by (metis of_char_of take_bit_nat_less_exp numeral_Bit0 take_bit_eq_mod  of_char_mod_256 mod_less_divisor zero_less_numeral)
  ultimately show ?thesis using unat_byte_eq [of "of_char c" b] by simp
qed

lemma fileTypeString_eq:
  "fileTypeString blob = [fromCharCode (blob ! 8), fromCharCode (blob ! 9),
     fromCharCode (blob ! 10), fromCharCode (blob ! 11)]"
  by (simp add: fileTypeString_def upt_rec)

lemma fileTypeString_FIT_iff:
  "fileTypeString blob = ''.FIT'' \<longleftrightarrow>
     blob ! 8 = 46 \<and> blob ! 9 = 70 \<and> blob ! 10 = 73 \<and> blob ! 11 = 84"
  unfolding fileTypeString_eq by (simp add: fromCharCode_eq_iff)

lemma byte_eq_iff: "byte blob 0 = 12 \<longleftrightarrow> blob ! 0 = 12" "byte blob 0 = 14 \<longleftrightarrow> blob ! 0 = 14"
  by (simp_all add: byte_def word_uint_eq_iff)

lemma check_header_None_iff:
  "check_header blob = None \<longleftrightarrow>
     12 \<le> length blob \<and> (blob ! 0 = 12 \<or> blob ! 0 = 14) \<and>
     blob ! 8 = 46 \<and> blob ! 9 = 70 \<and> blob ! 10 = 73 \<and> blob ! 11 = 84"
  by (auto simp: check_header_def byte_eq_iff fileTypeString_FIT_iff)

lemma check_header_Error: "check_header blob = Some e \<Longrightarrow> \<exists>msg. e = Error msg"
  by (auto simp: check_header_def split: if_splits)

text \<open>
  C1. A buffer of fewer than 12 bytes, or whose first byte is neither 12 nor 14, or whose
  bytes 8 to 11 are not the codes of \<^verbatim>\<open>.FIT\<close> (46, 70, 73, 84), makes \<^verbatim>\<open>parse\<close> throw an
  \<^verbatim>\<open>Error\<close>, and the object \<^verbatim>\<open>fitFileActivity\<close> is then exactly the one the caller passed:
  whatever \<^verbatim>\<open>readRecord\<close>, the product table, the object and the options are.
\<close>

theorem parse_format_error:
  assumes "length blob < 12 \<or> (blob ! 0 \<noteq> 12 \<and> blob ! 0 \<noteq> 14)
           \<or> \<not> (blob ! 8 = 46 \<and> blob ! 9 = 70 \<and> blob ! 10 = 73 \<and> blob ! 11 = 84)"
  shows "\<exists>msg. parse readRecord product fitFileActivity blob options
                = Some (Some (Error msg), fitFileActivity)"
proof -
  from assms have "check_header blob \<noteq> None"
    unfolding check_header_None_iff by auto
  then obtain e where e: "check_header blob = Some e" by auto
  then obtain msg where "e = Error msg" using check_header_Error by blast
  with e show ?thesis by (simp add: parse_def)
qed

theorem parse_format_error_witness:
  "(\<exists>msg. parse (scripted []) [] [(''userId'', Str ''u1'')] [12, 16, 0] Undefined
            = Some (Some (Error msg), [(''userId'', Str ''u1'')]))
   \<and> (\<exists>msg. parse (scripted []) [] [(''userId'', Str ''u1'')]
              [13, 16, 0, 0, 0, 0, 0, 0, 46, 70, 73, 84] Undefined
            = Some (Some (Error msg), [(''userId'', Str ''u1'')]))
   \<and> (\<exists>msg. parse (scripted []) [] [(''userId'', Str ''u1'')]
              [12, 16, 0, 0, 0, 0, 0, 0, 46, 70, 73, 83] Undefined
            = Some (Some (Error msg), [(''userId'', Str ''u1'')]))"
proof (intro conjI)
  show "\<exists>msg. parse (scripted []) [] [(''userId'', Str ''u1'')] [12, 16, 0] Undefined
            = Some (Some (Error msg), [(''userId'', Str ''u1'')])"
    by (rule parse_format_error) simp
  show "\<exists>msg. parse (scripted []) [] [(''userId'', Str ''u1'')]
              [13, 16, 0, 0, 0, 0, 0, 0, 46, 70, 73, 84] Undefined
            = Some (Some (Error msg), [(''userId'', Str ''u1'')])"
    by (rule parse_format_error) simp
  show "\<exists>msg. parse (scripted []) [] [(''userId'', Str ''u1'')]
              [12, 16, 0, 0, 0, 0, 0, 0, 46, 70, 73, 83] Undefined
            = Some (Some (Error msg), [(''userId'', Str ''u1'')])"
    by (rule parse_format_error) simp
qed


section \<open>Objects\<close>

lemma obj_get_update: "obj_get (AList.update k v a) k' = (if k' = k then v else obj_get a k')"
  by (simp add: obj_get_def update_conv')

lemma obj_get_delete: "obj_get (AList.delete k a) k' = (if k' = k then Undefined else obj_get a k')"
  by (simp add: obj_get_def delete_conv')

lemma obj_get_cong: "map_of a = map_of b \<Longrightarrow> obj_get a k = obj_get b k"
  by (simp add: obj_get_def)

lemma obj_get_map_of: "map_of a k = Some v \<Longrightarrow> obj_get a k = v"
  by (simp add: obj_get_def)

section \<open>The example decoder\<close>

lemma check_header_fit_file: "check_header (fit_file n) = None"
  unfolding check_header_None_iff by (simp add: fit_file_def)

lemma shl_0: "shl 0 n = 0"
  by (simp add: shl_def)

lemma dataLength_fit_file: "n < 256 \<Longrightarrow> dataLength (fit_file n) = int n"
proof -
  assume n: "n < 256"
  have "uint (word_of_nat n :: 8 word) = int n"
    using n by (simp add: uint_nat unat_of_nat)
  then show ?thesis
    by (simp add: dataLength_def byte_def fit_file_def shl_0)
qed

lemma byte0_fit_file: "byte (fit_file n) 0 = 12"
  by (simp add: byte_def fit_file_def)

lemma record_loop_scripted:
  "i \<le> length script \<Longrightarrow>
   record_loop (scripted script) product blob options (12 + int (length script)) (12 + int i)
     mts dfs st
   = Some (Inr (foldl (\<lambda>st (mt, m). dispatch product st mt m) st (drop i script)))"
proof (induction "length script - i" arbitrary: i st)
  case 0
  then have "i = length script" by simp
  then show ?case by (subst record_loop.simps) simp
next
  case (Suc k)
  then have i: "i < length script" by simp
  have step: "scripted script blob mts dfs (12 + int i) options Undefined (pausedTime st)
        = Inr (12 + int (Suc i), fst (script ! i), snd (script ! i), mts, dfs)"
    using i by (simp add: scripted_def Let_def)
  have k: "k = length script - Suc i" using Suc.hyps(2) by simp
  have d: "drop i script = script ! i # drop (Suc i) script"
    using i by (simp add: Cons_nth_drop_Suc)
  have ih: "\<And>st'. record_loop (scripted script) product blob options
        (12 + int (length script)) (13 + int i) mts dfs st'
      = Some (Inr (foldl (\<lambda>st (mt, m). dispatch product st mt m) st' (drop (Suc i) script)))"
    using Suc.hyps(1) [OF k, of] i by simp
  show ?case
    apply (subst record_loop.simps)
    using i apply (simp only: step)
    apply (simp add: ih d split: prod.split)
    done
qed

lemma decode_scripted:
  assumes "length script < 256"
  shows "decode (scripted script) product (fit_file (length script)) options
         = Some (Inr (foldl (\<lambda>st (mt, m). dispatch product st mt m)
                        (init_agg (fit_file (length script))) script))"
  using record_loop_scripted [of 0 script product "fit_file (length script)"] assms
  by (simp add: decode_def dataLength_fit_file byte0_fit_file Let_def add.commute)

lemma parse_decoded:
  "check_header blob = None \<Longrightarrow> decode readRecord product blob options = Some (Inr st) \<Longrightarrow>
   parse readRecord product a blob options = Some (aggregate st a)"
  by (simp add: parse_def)

section \<open>What each step leaves alone\<close>

lemma assign_field_other:
  "k \<noteq> fst fk \<Longrightarrow> map_of (assign_field session a fk) k = map_of a k"
  by (simp add: assign_field_def Let_def update_conv')

lemma foldl_assign_field_other:
  "k \<notin> fst ` set fks \<Longrightarrow> map_of (foldl (assign_field session) a fks) k = map_of a k"
  by (induction fks arbitrary: a) (simp_all add: assign_field_other)



lemma sport_profile_other:
  "k \<noteq> ''sportProfile'' \<Longrightarrow> map_of (snd (sport_profile sps a)) k = map_of a k"
  by (induction sps a rule: sport_profile.induct)
     (auto simp: update_conv' split: jsval.splits)

lemma round_field_other: "k \<noteq> f \<Longrightarrow> map_of (round_field a f) k = map_of a k"
  by (simp add: round_field_def update_conv')

lemma round_fields_other:
  "k \<notin> {''trainingLoad'', ''pedalSmoothness'', ''pedalTorqueEffect''} \<Longrightarrow>
   map_of (round_fields a) k = map_of a k"
  by (simp add: round_fields_def round_field_other)

lemma add_workout_other:
  "k \<notin> {''workoutName'', ''workoutNotes''} \<Longrightarrow> map_of (add_workout fo a) k = map_of a k"
  by (simp add: add_workout_def Let_def update_conv')

lemma add_devices_other:
  "k \<notin> {''devices'', ''deviceBattery''} \<Longrightarrow> map_of (add_devices devices a) k = map_of a k"
  by (simp add: add_devices_def Let_def update_conv')

lemma decode_primaryBenefit_other:
  "k \<noteq> ''primaryBenefit'' \<Longrightarrow> map_of (decode_primaryBenefit a) k = map_of a k"
  by (simp add: decode_primaryBenefit_def update_conv')

lemma decode_pedalBalance_other:
  "k \<noteq> ''pedalBalance'' \<Longrightarrow> map_of (decode_pedalBalance a) k = map_of a k"
  by (simp add: decode_pedalBalance_def Let_def update_conv' delete_conv')

lemma fields_names:
  "map fst fields = [''primaryBenefit'', ''intensityFactor'', ''tss'', ''trainingLoad'',
     ''aerobicTrainingEffect'', ''anaerobicTrainingEffect'', ''pedalSmoothness'',
     ''pedalTorqueEffect'', ''pedalBalance'']"
  by (simp add: fields_def)

section \<open>The pedal balance\<close>

lemma parse_scripted:
  "length script < 256 \<Longrightarrow>
   parse (scripted script) product a (fit_file (length script)) options
   = Some (aggregate (foldl (\<lambda>st (mt, m). dispatch product st mt m)
                        (init_agg (fit_file (length script))) script) a)"
  by (simp add: parse_decoded check_header_fit_file decode_scripted)

lemma before_pedalBalance:
  "obj_get (decode_primaryBenefit (add_devices devices (add_workout fo (round_fields a))))
     ''pedalBalance'' = obj_get a ''pedalBalance''"
  by (simp add: obj_get_def decode_primaryBenefit_other add_devices_other add_workout_other
      round_fields_other)

lemma decode_pedalBalance_set:
  "balance_ok (obj_get a ''pedalBalance'') \<Longrightarrow>
   map_of (decode_pedalBalance a) ''pedalBalance''
   = Some (Str (''L '' @
        num_to_string (num_sub (Fin 100)
          (math_round (js_div (js_prop (obj_get a ''pedalBalance'') ''value'') (Num (Fin 100)))))
        @ ''% / R '' @
        num_to_string (math_round (js_div (js_prop (obj_get a ''pedalBalance'') ''value'')
          (Num (Fin 100)))) @ ''%''))"
  by (simp add: decode_pedalBalance_def Let_def update_conv')

lemma decode_pedalBalance_deleted:
  "\<not> balance_ok (obj_get a ''pedalBalance'') \<Longrightarrow>
   map_of (decode_pedalBalance a) ''pedalBalance'' = None"
  by (simp add: decode_pedalBalance_def Let_def delete_conv')

lemma balance_ok_Obj:
  "balance_ok (Obj ps) \<longleftrightarrow>
     truthy (obj_get ps ''right'') \<and> js_le (obj_get ps ''value'') (Num (Fin 10000))"
  by (simp add: balance_ok_def opt_prop_def)

lemma balance_ok_not_Obj: "(\<forall>ps. balance \<noteq> Obj ps) \<Longrightarrow> \<not> balance_ok balance"
  by (cases balance) (simp_all add: balance_ok_def opt_prop_def)

lemma js_le_Num: "js_le (Num x) (Num y) = num_le x y"
  by (simp add: js_le_def)

lemma js_le_Undefined: "\<not> js_le Undefined (Num y)"
  by (simp add: js_le_def)

lemma aggregate_ok:
  "from_sessions (lists st Sessions) (lists st Sports) a = (None, a1) \<Longrightarrow>
   aggregate st a
   = (None, decode_pedalBalance (decode_primaryBenefit
              (add_devices (lists st Devices) (add_workout (fitObj st) (round_fields a1)))))"
  by (simp add: aggregate_def)

lemma aggregate_error:
  "from_sessions (lists st Sessions) (lists st Sports) a = (Some e, a1) \<Longrightarrow>
   aggregate st a = (Some e, a1)"
  by (simp add: aggregate_def)

text \<open>
  C4. Take a parse that passes the header checks, whose loop ends and whose sessions
  are read without an error, and let \<open>a1\<close> be the activity after the sessions: its
  \<^verbatim>\<open>pedalBalance\<close> is the raw value (the first one a session carries, or the caller's).
  If the raw value is an object with a truthy \<^verbatim>\<open>right\<close> and a numeric \<^verbatim>\<open>value\<close> of at
  most 10000, the summary's \<^verbatim>\<open>pedalBalance\<close> is the text \<^verbatim>\<open>L {left}% / R {right}%\<close>
  with \<open>right = round(value / 100)\<close> and \<open>left = 100 - right\<close>. If the raw value is not
  an object (in particular if there is none), or is an object whose \<^verbatim>\<open>right\<close> is falsy
  or whose \<^verbatim>\<open>value\<close> is missing, not a number or above 10000, the summary has no
  \<^verbatim>\<open>pedalBalance\<close> property at all.
\<close>

theorem pedalBalance_decoding:
  assumes "check_header blob = None"
    and "decode readRecord product blob options = Some (Inr st)"
    and "from_sessions (lists st Sessions) (lists st Sports) fitFileActivity = (None, a1)"
  shows "\<exists>a'. parse readRecord product fitFileActivity blob options = Some (None, a')
     \<and> (obj_get a1 ''pedalBalance'' = Obj ps \<and> truthy (obj_get ps ''right'')
          \<and> obj_get ps ''value'' = Num (Fin v) \<and> v \<le> 10000
        \<longrightarrow> map_of a' ''pedalBalance''
            = Some (Str (''L '' @ num_to_string (Fin (100 - of_int \<lfloor>v / 100 + 1 / 2\<rfloor>))
                         @ ''% / R '' @ num_to_string (Fin (of_int \<lfloor>v / 100 + 1 / 2\<rfloor>))
                         @ ''%'')))
     \<and> ((\<forall>qs. obj_get a1 ''pedalBalance'' \<noteq> Obj qs)
          \<or> (\<exists>qs. obj_get a1 ''pedalBalance'' = Obj qs
                \<and> (\<not> truthy (obj_get qs ''right'') \<or> obj_get qs ''value'' = Undefined
                    \<or> obj_get qs ''value'' = Num NaN
                    \<or> (\<exists>w. obj_get qs ''value'' = Num (Fin w) \<and> 10000 < w)))
        \<longrightarrow> map_of a' ''pedalBalance'' = None)"
proof -
  let ?b = "decode_primaryBenefit
              (add_devices (lists st Devices) (add_workout (fitObj st) (round_fields a1)))"
  have p: "parse readRecord product fitFileActivity blob options
           = Some (None, decode_pedalBalance ?b)"
    using assms by (simp add: parse_decoded aggregate_ok)
  have raw: "obj_get ?b ''pedalBalance'' = obj_get a1 ''pedalBalance''"
    by (rule before_pedalBalance)
  have set: "map_of (decode_pedalBalance ?b) ''pedalBalance''
        = Some (Str (''L '' @ num_to_string (Fin (100 - of_int \<lfloor>v / 100 + 1 / 2\<rfloor>))
                     @ ''% / R '' @ num_to_string (Fin (of_int \<lfloor>v / 100 + 1 / 2\<rfloor>))
                     @ ''%''))"
    if "obj_get a1 ''pedalBalance'' = Obj ps" "truthy (obj_get ps ''right'')"
       "obj_get ps ''value'' = Num (Fin v)" "v \<le> 10000"
  proof -
    have "balance_ok (obj_get ?b ''pedalBalance'')"
      using that by (simp add: raw balance_ok_Obj js_le_Num)
    from decode_pedalBalance_set [OF this] show ?thesis
      using that by (simp add: raw js_div_def)
  qed
  have del: "map_of (decode_pedalBalance ?b) ''pedalBalance'' = None"
    if "(\<forall>qs. obj_get a1 ''pedalBalance'' \<noteq> Obj qs)
          \<or> (\<exists>qs. obj_get a1 ''pedalBalance'' = Obj qs
                \<and> (\<not> truthy (obj_get qs ''right'') \<or> obj_get qs ''value'' = Undefined
                    \<or> obj_get qs ''value'' = Num NaN
                    \<or> (\<exists>w. obj_get qs ''value'' = Num (Fin w) \<and> 10000 < w)))"
  proof -
    have "\<not> balance_ok (obj_get a1 ''pedalBalance'')"
      using that
      by (auto simp: balance_ok_not_Obj balance_ok_Obj js_le_Num js_le_Undefined)
    then show ?thesis by (simp add: decode_pedalBalance_deleted raw)
  qed
  show ?thesis using p set del by blast
qed

lemma decode_replay:
  "length script < 256 \<Longrightarrow>
   decode (scripted script) [] (fit_file (length script)) options = Some (Inr (replay script))"
  by (simp add: decode_scripted replay_def)

theorem pedalBalance_decoding_witness:
  "(\<exists>a'. parse (scripted [balance_session 6000 True]) [] [] (fit_file 1) Undefined
           = Some (None, a')
        \<and> map_of a' ''pedalBalance'' = Some (Str ''L 40% / R 60%''))
   \<and> (\<exists>a'. parse (scripted [balance_session 10500 True]) [] [] (fit_file 1) Undefined
           = Some (None, a')
        \<and> map_of a' ''pedalBalance'' = None)"
proof (intro conjI)
  let ?st = "replay [balance_session 6000 True]"
  let ?a1 = "snd (from_sessions (lists ?st Sessions) (lists ?st Sports) [])"
  have d: "decode (scripted [balance_session 6000 True]) [] (fit_file 1) Undefined = Some (Inr ?st)"
    using decode_replay [of "[balance_session 6000 True]" Undefined] by simp
  have "fst (from_sessions (lists ?st Sessions) (lists ?st Sports) []) = None"
    by code_simp
  then have f: "from_sessions (lists ?st Sessions) (lists ?st Sports) [] = (None, ?a1)"
    by (simp add: prod_eq_iff)
  have raw: "obj_get ?a1 ''pedalBalance'' = Obj [(''value'', Num (Fin 6000)), (''right'', Bool True)]"
    by code_simp
  have str: "''L '' @ num_to_string (Fin (100 - of_int \<lfloor>(6000 :: rat) / 100 + 1 / 2\<rfloor>))
        @ ''% / R '' @ num_to_string (Fin (of_int \<lfloor>(6000 :: rat) / 100 + 1 / 2\<rfloor>)) @ ''%''
        = ''L 40% / R 60%''"
    by code_simp
  from pedalBalance_decoding [OF check_header_fit_file d f,
      of "[(''value'', Num (Fin 6000)), (''right'', Bool True)]" 6000]
  show "\<exists>a'. parse (scripted [balance_session 6000 True]) [] [] (fit_file 1) Undefined
           = Some (None, a')
        \<and> map_of a' ''pedalBalance'' = Some (Str ''L 40% / R 60%'')"
    unfolding raw str by (auto simp: obj_get_def)
next
  let ?st = "replay [balance_session 10500 True]"
  let ?a1 = "snd (from_sessions (lists ?st Sessions) (lists ?st Sports) [])"
  have d: "decode (scripted [balance_session 10500 True]) [] (fit_file 1) Undefined
           = Some (Inr ?st)"
    using decode_replay [of "[balance_session 10500 True]" Undefined] by simp
  have "fst (from_sessions (lists ?st Sessions) (lists ?st Sports) []) = None"
    by code_simp
  then have f: "from_sessions (lists ?st Sessions) (lists ?st Sports) [] = (None, ?a1)"
    by (simp add: prod_eq_iff)
  have raw: "obj_get ?a1 ''pedalBalance'' = Obj [(''value'', Num (Fin 10500)), (''right'', Bool True)]"
    by code_simp
  from pedalBalance_decoding [OF check_header_fit_file d f, of undefined 0]
  show "\<exists>a'. parse (scripted [balance_session 10500 True]) [] [] (fit_file 1) Undefined
           = Some (None, a')
        \<and> map_of a' ''pedalBalance'' = None"
    unfolding raw by (auto simp: obj_get_def)
qed

lemma from_sessions_none: "from_sessions [] sports a = (None, a)"
  by (simp add: from_sessions_def)





section \<open>The primary benefit\<close>

lemma before_primaryBenefit:
  "obj_get (add_devices devices (add_workout fo (round_fields a))) ''primaryBenefit''
   = obj_get a ''primaryBenefit''"
  by (simp add: obj_get_def add_devices_other add_workout_other round_fields_other)

lemma decode_primaryBenefit_set:
  "truthy (obj_get a ''primaryBenefit'') \<Longrightarrow>
   map_of (decode_pedalBalance (decode_primaryBenefit a)) ''primaryBenefit''
   = Some (arr_index primaryBenefits (obj_get a ''primaryBenefit''))"
  by (simp add: decode_pedalBalance_other decode_primaryBenefit_def update_conv')

lemma primaryBenefits_names:
  "primaryBenefits = map Str [''None'', ''Recovery'', ''Base'', ''Tempo'', ''Threshold'',
     ''VO2Max'', ''Anaerobic'', ''Sprint'']"
  by (simp add: primaryBenefits_def)

lemma primaryBenefits_nth:
  "n \<le> 7 \<Longrightarrow> primaryBenefits ! n
     = Str ([''None'', ''Recovery'', ''Base'', ''Tempo'', ''Threshold'',
             ''VO2Max'', ''Anaerobic'', ''Sprint''] ! n)"
  unfolding primaryBenefits_names by (rule nth_map) simp

lemma length_primaryBenefits: "length primaryBenefits = 8"
  by (simp add: primaryBenefits_def)

lemma arr_index_code:
  assumes "n \<le> 7"
  shows "arr_index primaryBenefits (Num (Fin (of_nat n)))
     = Str ([''None'', ''Recovery'', ''Base'', ''Tempo'', ''Threshold'',
             ''VO2Max'', ''Anaerobic'', ''Sprint''] ! n)"
proof -
  have "arr_index primaryBenefits (Num (Fin (of_nat n))) = primaryBenefits ! n"
    using assms by (simp add: arr_index_def length_primaryBenefits)
  then show ?thesis using assms by (simp only: primaryBenefits_nth)
qed

lemma arr_index_outside:
  assumes "\<forall>n\<le>7. q \<noteq> of_nat n"
  shows "arr_index primaryBenefits (Num (Fin q)) = Undefined"
proof -
  have "\<not> (of_int \<lfloor>q\<rfloor> = q \<and> 0 \<le> q \<and> q < 8)"
  proof
    assume h: "of_int \<lfloor>q\<rfloor> = q \<and> 0 \<le> q \<and> q < 8"
    from h have q: "q = of_int \<lfloor>q\<rfloor>" by (simp only:)
    from h have lo: "0 \<le> \<lfloor>q\<rfloor>" by (simp only: zero_le_floor)
    from h have hi: "\<lfloor>q\<rfloor> < 8" by (simp only: floor_less_iff of_int_numeral)
    from lo hi have "nat \<lfloor>q\<rfloor> \<le> 7" by arith
    moreover from lo have "(of_nat (nat \<lfloor>q\<rfloor>) :: rat) = of_int \<lfloor>q\<rfloor>" by (rule of_nat_nat)
    ultimately show False using assms q by metis
  qed
  then show ?thesis
    by (simp only: arr_index_def jsval.case jsnum.case if_False length_primaryBenefits of_nat_numeral)
qed

text \<open>
  C7 (as amended). Take a parse that passes the header checks, whose loop ends and whose
  sessions are read without an error, and let the activity after the sessions carry a
  numeric primary-benefit code other than 0. A code from 1 to 7 is replaced by the entry
  of the table \<^verbatim>\<open>None, Recovery, Base, Tempo, Threshold, VO2Max, Anaerobic, Sprint\<close> at
  that index. Any other code is not passed through: the property is assigned the
  \<^verbatim>\<open>undefined\<close> the table lookup yields. In both cases the parse succeeds.
\<close>

theorem primaryBenefit_decoding:
  assumes "check_header blob = None"
    and "decode readRecord product blob options = Some (Inr st)"
    and "from_sessions (lists st Sessions) (lists st Sports) fitFileActivity = (None, a1)"
    and "obj_get a1 ''primaryBenefit'' = Num (Fin q)"
    and "q \<noteq> 0"
  shows "\<exists>a'. parse readRecord product fitFileActivity blob options = Some (None, a')
     \<and> (q = of_nat n \<and> 1 \<le> n \<and> n \<le> 7
          \<longrightarrow> map_of a' ''primaryBenefit''
              = Some (Str ([''None'', ''Recovery'', ''Base'', ''Tempo'', ''Threshold'',
                            ''VO2Max'', ''Anaerobic'', ''Sprint''] ! n)))
     \<and> ((\<forall>m\<le>7. q \<noteq> of_nat m) \<longrightarrow> map_of a' ''primaryBenefit'' = Some Undefined)"
proof -
  let ?b = "add_devices (lists st Devices) (add_workout (fitObj st) (round_fields a1))"
  have p: "parse readRecord product fitFileActivity blob options
           = Some (None, decode_pedalBalance (decode_primaryBenefit ?b))"
    using assms(1-3) by (simp add: parse_decoded aggregate_ok)
  have raw: "obj_get ?b ''primaryBenefit'' = Num (Fin q)"
    using assms(4) by (simp add: before_primaryBenefit)
  then have "truthy (obj_get ?b ''primaryBenefit'')" using assms(5) by simp
  from decode_primaryBenefit_set [OF this]
  have r: "map_of (decode_pedalBalance (decode_primaryBenefit ?b)) ''primaryBenefit''
           = Some (arr_index primaryBenefits (Num (Fin q)))"
    by (simp add: raw)
  show ?thesis
    using p r arr_index_code [of n] arr_index_outside [of q] by auto
qed

theorem primaryBenefit_decoding_witness:
  "(\<exists>a'. parse (scripted [benefit_session 3]) [] [] (fit_file 1) Undefined = Some (None, a')
        \<and> map_of a' ''primaryBenefit'' = Some (Str ''Tempo''))
   \<and> (\<exists>a'. parse (scripted [benefit_session 9]) [] [] (fit_file 1) Undefined = Some (None, a')
        \<and> map_of a' ''primaryBenefit'' = Some Undefined)"
proof (intro conjI)
  let ?st = "replay [benefit_session 3]"
  let ?a1 = "snd (from_sessions (lists ?st Sessions) (lists ?st Sports) [])"
  have d: "decode (scripted [benefit_session 3]) [] (fit_file 1) Undefined = Some (Inr ?st)"
    using decode_replay [of "[benefit_session 3]" Undefined] by simp
  have "fst (from_sessions (lists ?st Sessions) (lists ?st Sports) []) = None"
    by code_simp
  then have f: "from_sessions (lists ?st Sessions) (lists ?st Sports) [] = (None, ?a1)"
    by (simp add: prod_eq_iff)
  have raw: "obj_get ?a1 ''primaryBenefit'' = Num (Fin 3)"
    by code_simp
  from primaryBenefit_decoding [OF check_header_fit_file d f raw, of 3]
  show "\<exists>a'. parse (scripted [benefit_session 3]) [] [] (fit_file 1) Undefined = Some (None, a')
        \<and> map_of a' ''primaryBenefit'' = Some (Str ''Tempo'')"
    by auto
next
  let ?st = "replay [benefit_session 9]"
  let ?a1 = "snd (from_sessions (lists ?st Sessions) (lists ?st Sports) [])"
  have d: "decode (scripted [benefit_session 9]) [] (fit_file 1) Undefined = Some (Inr ?st)"
    using decode_replay [of "[benefit_session 9]" Undefined] by simp
  have "fst (from_sessions (lists ?st Sessions) (lists ?st Sports) []) = None"
    by code_simp
  then have f: "from_sessions (lists ?st Sessions) (lists ?st Sports) [] = (None, ?a1)"
    by (simp add: prod_eq_iff)
  have raw: "obj_get ?a1 ''primaryBenefit'' = Num (Fin 9)"
    by code_simp
  have out: "\<forall>m\<le>7. (9 :: rat) \<noteq> of_nat m"
  proof (intro allI impI)
    fix m :: nat assume "m \<le> 7"
    then have "(of_nat m :: rat) \<le> 7" by (metis of_nat_le_iff of_nat_numeral)
    then show "(9 :: rat) \<noteq> of_nat m" by linarith
  qed
  from primaryBenefit_decoding [OF check_header_fit_file d f raw, of 0]
  show "\<exists>a'. parse (scripted [benefit_session 9]) [] [] (fit_file 1) Undefined = Some (None, a')
        \<and> map_of a' ''primaryBenefit'' = Some Undefined"
    using out by auto
qed

text \<open>
  C7 as stated fails: the code 9, outside the table, does not pass through; the summary
  holds \<^verbatim>\<open>undefined\<close> in its place.
\<close>

theorem primaryBenefit_decoding_counterexample:
  "parse (scripted [benefit_session 9]) [] [] (fit_file 1) Undefined
   = Some (None, [(''distance'', Num (Fin 25)), (''totalTime'', Num (Fin 3600)),
                  (''primaryBenefit'', Undefined)])"
  by code_simp

section \<open>Distance and total time\<close>

lemma baseSum_nums:
  "baseSum (map (\<lambda>d. Num (Fin d)) ds) (Num (Fin r)) = Num (Fin (r + sum_list ds))"
  by (induction ds arbitrary: r) (simp_all add: js_add_def add.assoc)

lemma baseSum_nums_first:
  "ds \<noteq> [] \<Longrightarrow> baseSum (map (\<lambda>d. Num (Fin d)) ds) Undefined = Num (Fin (sum_list ds))"
  by (cases ds) (simp_all add: baseSum_nums)


lemma fields_name_set:
  "fst ` set fields = {''primaryBenefit'', ''intensityFactor'', ''tss'', ''trainingLoad'',
     ''aerobicTrainingEffect'', ''anaerobicTrainingEffect'', ''pedalSmoothness'',
     ''pedalTorqueEffect'', ''pedalBalance''}"
  by (simp add: fields_def)



text \<open>
  The rounding on some values: the doubles nearest to 0.1 and to 0.15, the tie between
  two doubles that goes to the even significand, and the distances of sessions whose
  sum in metres ends in 50, where the decimal rounding depends on the side of the tie on
  which the double of the quotient lies (0.25 and 0.75 are doubles, and go away from
  zero).
\<close>

lemma to_double_examples:
  "to_double (1 / 10) = 3602879701896397 / 36028797018963968"
  "to_double (150 / 1000) = 5404319552844595 / 36028797018963968"
  "to_double 9007199254740993 = 9007199254740992"
  "to_double 9007199254740995 = 9007199254740996"
  "to_double 25 = 25"
  by code_simp+

lemma parseFloat_toFixed1_examples:
  "map (\<lambda>d. parseFloat_toFixed1 (num_div (Fin d) (Fin 1000)))
     [150, 250, 350, 750, 850, 950, 1150, 2050, 10000, 25040]
   = map Fin [1 / 10, 3 / 10, 3 / 10, 8 / 10, 8 / 10, 9 / 10, 11 / 10, 2, 10, 25]"
  by code_simp





section \<open>The fields taken from the sessions\<close>

lemma assign_field_same:
  "obj_get (assign_field session a fk) (fst fk)
   = (if \<not> truthy (obj_get a (fst fk)) \<and> \<not> isNil (session_value session (snd fk))
      then session_value session (snd fk) else obj_get a (fst fk))"
  by (simp add: assign_field_def Let_def obj_get_update)

lemma assign_field_other_get:
  "k \<noteq> fst fk \<Longrightarrow> obj_get (assign_field session a fk) k = obj_get a k"
  by (simp add: obj_get_def assign_field_other)

lemma foldl_assign_field_get:
  assumes "distinct (map fst fks)" and "(field, key) \<in> set fks"
  shows "obj_get (foldl (assign_field session) a fks) field
         = (if \<not> truthy (obj_get a field) \<and> \<not> isNil (session_value session key)
            then session_value session key else obj_get a field)"
  using assms
proof (induction fks arbitrary: a)
  case Nil
  then show ?case by simp
next
  case (Cons fk fks)
  show ?case
  proof (cases "fk = (field, key)")
    case True
    then have "field \<notin> fst ` set fks" using Cons.prems(1) by auto
    then have "obj_get (foldl (assign_field session) (assign_field session a fk) fks) field
               = obj_get (assign_field session a fk) field"
      by (simp add: obj_get_def foldl_assign_field_other)
    then show ?thesis using True assign_field_same [of session a fk] by simp
  next
    case False
    then have in_tl: "(field, key) \<in> set fks" using Cons.prems(2) by simp
    then have "field \<in> set (map fst fks)" by force
    moreover have "fst fk \<notin> set (map fst fks)" using Cons.prems(1) by simp
    ultimately have ne: "field \<noteq> fst fk" by blast
    have d: "distinct (map fst fks)" using Cons.prems(1) by simp
    show ?thesis
      using Cons.IH [OF d in_tl, of "assign_field session a fk"]
      by (simp add: assign_field_other_get [OF ne])
  qed
qed

lemma distinct_fields: "distinct (map fst fields)"
  by (simp add: fields_names)

lemma append_session_get:
  "(field, key) \<in> set fields \<Longrightarrow>
   obj_get (append_session a session) field
   = (if \<not> truthy (obj_get a field) \<and> \<not> isNil (session_value session key)
      then session_value session key else obj_get a field)"
  unfolding append_session_def by (rule foldl_assign_field_get [OF distinct_fields])

lemma append_sessions_get:
  "(field, key) \<in> set fields \<Longrightarrow>
   obj_get (append_sessions a sessions) field
   = foldl (\<lambda>cur v. if \<not> truthy cur \<and> \<not> isNil v then v else cur) (obj_get a field)
       (map (\<lambda>s. session_value s key) sessions)"
  unfolding append_sessions_def
  by (induction sessions arbitrary: a) (simp_all add: append_session_get)

lemma keep_truthy:
  "truthy cur \<Longrightarrow> foldl (\<lambda>cur v. if \<not> truthy cur \<and> \<not> isNil v then v else cur) cur vs = cur"
  by (induction vs) simp_all

lemma truthy_not_nil: "truthy v \<Longrightarrow> \<not> isNil v"
  by (cases v) simp_all

lemma take_last_falsy:
  "\<not> truthy cur \<Longrightarrow> \<forall>u\<in>set vs. \<not> truthy u \<Longrightarrow>
   foldl (\<lambda>cur v. if \<not> truthy cur \<and> \<not> isNil v then v else cur) cur vs
   = last (cur # filter (\<lambda>u. \<not> isNil u) vs)"
  by (induction vs arbitrary: cur) simp_all

lemma falsy_stays_falsy:
  "\<not> truthy cur \<Longrightarrow> \<forall>u\<in>set vs. \<not> truthy u \<Longrightarrow>
   \<not> truthy (foldl (\<lambda>cur v. if \<not> truthy cur \<and> \<not> isNil v then v else cur) cur vs)"
  by (induction vs arbitrary: cur) simp_all

lemma first_truthy:
  assumes "\<not> truthy cur" and "\<forall>u\<in>set pre. \<not> truthy u" and "truthy v"
  shows "foldl (\<lambda>cur v. if \<not> truthy cur \<and> \<not> isNil v then v else cur) cur (pre @ v # post) = v"
  using falsy_stays_falsy [OF assms(1,2)] assms(3)
  by (simp add: keep_truthy truthy_not_nil)

lemma from_sessions_get:
  assumes "(field, key) \<in> set fields"
  shows "obj_get (snd (from_sessions sessions sports a)) field
         = foldl (\<lambda>cur v. if \<not> truthy cur \<and> \<not> isNil v then v else cur) (obj_get a field)
             (map (\<lambda>s. session_value s key) sessions)"
proof (cases "sessions = []")
  case True
  then show ?thesis by (simp add: from_sessions_def)
next
  case False
  have f: "field \<in> fst ` set fields" using assms by force
  then have ne: "field \<noteq> ''sportProfile''" "field \<noteq> ''distance''" "field \<noteq> ''totalTime''"
    by (auto simp: fields_name_set)
  show ?thesis
    using False ne
    by (simp add: from_sessions_def Let_def obj_get_def [of "snd _"] sport_profile_other
          append_sessions_get [OF assms, unfolded obj_get_def [of "append_sessions _ _"]]
          obj_get_update)
qed

lemma mean_nums:
  assumes "qs \<noteq> []"
  shows "mean (map (\<lambda>q. Num (Fin q)) qs) = Num (Fin (sum_list qs / of_nat (length qs)))"
proof -
  have "(of_nat (length qs) :: rat) \<noteq> 0" using assms by simp
  then show ?thesis
    using assms by (simp add: mean_def baseSum_nums_first js_div_def)
qed

lemma session_value_mean:
  "without_nil (pick_values session ks) = map (\<lambda>q. Num (Fin q)) qs \<Longrightarrow> qs \<noteq> [] \<Longrightarrow>
   session_value session (Keys ks) = Num (Fin (sum_list qs / of_nat (length qs)))"
  by (simp add: mean_nums)

lemma aggregate_keeps:
  assumes "k \<notin> {''trainingLoad'', ''pedalSmoothness'', ''pedalTorqueEffect'', ''workoutName'',
             ''workoutNotes'', ''devices'', ''deviceBattery'', ''primaryBenefit'', ''pedalBalance''}"
    and "from_sessions (lists st Sessions) (lists st Sports) a = (err, a1)"
  shows "\<exists>a'. aggregate st a = (err, a') \<and> obj_get a' k = obj_get a1 k"
proof (cases err)
  case None
  then show ?thesis
    using assms
    by (simp add: aggregate_ok obj_get_def decode_pedalBalance_other decode_primaryBenefit_other
          add_devices_other add_workout_other round_fields_other)
next
  case (Some e)
  then show ?thesis using assms(2) by (simp add: aggregate_error)
qed

text \<open>
  C6 (as amended). Take a parse that passes the header checks and whose loop ends, one of
  the nine entries \<open>(field, key)\<close> of the table of derived fields, and the values \<open>vs\<close>
  that the sessions give for it in their order (for an entry with several keys, the mean
  of the values that the session has for them). After the sessions have been read, the
  field holds: the caller's value, when that is truthy; otherwise the first truthy value
  of \<open>vs\<close>, which no later session overwrites; and when no value of \<open>vs\<close> is truthy, the
  last one that is neither \<^verbatim>\<open>null\<close> nor \<^verbatim>\<open>undefined\<close> (so a zero is replaced by the value
  of a later session), or the caller's when there is none. For the intensity factor,
  the training stress score and the two training effects, which no later step changes,
  this is the value in the summary.
\<close>

theorem first_truthy_value_wins:
  assumes "check_header blob = None"
    and "decode readRecord product blob options = Some (Inr st)"
    and "(field, key) \<in> set fields"
    and "map (\<lambda>s. session_value s key) (lists st Sessions) = vs"
    and "from_sessions (lists st Sessions) (lists st Sports) fitFileActivity = (err, a1)"
  shows "(truthy (obj_get fitFileActivity field)
            \<longrightarrow> obj_get a1 field = obj_get fitFileActivity field)
     \<and> (\<not> truthy (obj_get fitFileActivity field) \<and> vs = pre @ v # post \<and> truthy v
          \<and> (\<forall>u\<in>set pre. \<not> truthy u)
            \<longrightarrow> obj_get a1 field = v)
     \<and> (\<not> truthy (obj_get fitFileActivity field) \<and> (\<forall>u\<in>set vs. \<not> truthy u)
            \<longrightarrow> obj_get a1 field
                = last (obj_get fitFileActivity field # filter (\<lambda>u. \<not> isNil u) vs))
     \<and> (field \<in> {''intensityFactor'', ''tss'', ''aerobicTrainingEffect'',
                   ''anaerobicTrainingEffect''}
            \<longrightarrow> (\<exists>a'. parse readRecord product fitFileActivity blob options = Some (err, a')
                  \<and> obj_get a' field = obj_get a1 field))
     \<and> (key = Keys ks \<and> without_nil (pick_values session ks) = map (\<lambda>q. Num (Fin q)) qs
          \<and> qs \<noteq> []
            \<longrightarrow> session_value session key = Num (Fin (sum_list qs / of_nat (length qs))))"
proof -
  have a1: "obj_get a1 field
            = foldl (\<lambda>cur v. if \<not> truthy cur \<and> \<not> isNil v then v else cur)
                (obj_get fitFileActivity field) vs"
    using from_sessions_get [OF assms(3), of "lists st Sessions" "lists st Sports" fitFileActivity]
    by (simp add: assms(4,5))
  have keep: "obj_get a1 field = obj_get fitFileActivity field"
    if "truthy (obj_get fitFileActivity field)"
    using that by (simp add: a1 keep_truthy)
  have first: "obj_get a1 field = v"
    if "\<not> truthy (obj_get fitFileActivity field)" "vs = pre @ v # post" "truthy v"
       "\<forall>u\<in>set pre. \<not> truthy u"
    unfolding a1 that(2) using that(1,4,3) by (rule first_truthy)
  have last: "obj_get a1 field = last (obj_get fitFileActivity field # filter (\<lambda>u. \<not> isNil u) vs)"
    if "\<not> truthy (obj_get fitFileActivity field)" "\<forall>u\<in>set vs. \<not> truthy u"
    using that by (simp add: a1 take_last_falsy)
  have final: "\<exists>a'. parse readRecord product fitFileActivity blob options = Some (err, a')
                  \<and> obj_get a' field = obj_get a1 field"
    if "field \<in> {''intensityFactor'', ''tss'', ''aerobicTrainingEffect'',
                   ''anaerobicTrainingEffect''}"
  proof -
    have "field \<notin> {''trainingLoad'', ''pedalSmoothness'', ''pedalTorqueEffect'', ''workoutName'',
             ''workoutNotes'', ''devices'', ''deviceBattery'', ''primaryBenefit'', ''pedalBalance''}"
      using that by auto
    from aggregate_keeps [OF this assms(5)] show ?thesis
      using assms(1,2) by (auto simp: parse_decoded)
  qed
  show ?thesis
    using keep first last final session_value_mean [of session ks qs] by blast
qed

theorem first_truthy_value_wins_witness:
  "\<exists>err a'. parse (scripted [tss_session 0, tss_session 50, tss_session 70]) [] []
              (fit_file 3) Undefined = Some (err, a')
     \<and> obj_get a' ''tss'' = Num (Fin 50)"
proof -
  let ?script = "[tss_session 0, tss_session 50, tss_session 70]"
  let ?st = "replay ?script"
  let ?r = "from_sessions (lists ?st Sessions) (lists ?st Sports) []"
  have d: "decode (scripted ?script) [] (fit_file 3) Undefined = Some (Inr ?st)"
    using decode_replay [of ?script Undefined] by (simp add: numeral_3_eq_3)
  have mem: "(''tss'', Key ''training_stress_score'') \<in> set fields"
    by (simp add: fields_def)
  have vs: "map (\<lambda>s. session_value s (Key ''training_stress_score'')) (lists ?st Sessions)
            = [Num (Fin 0)] @ Num (Fin 50) # [Num (Fin 70)]"
    by code_simp
  have f: "?r = (fst ?r, snd ?r)" by simp
  from first_truthy_value_wins [OF check_header_fit_file d mem vs f,
      of "[Num (Fin 0)]" "Num (Fin 50)" "[Num (Fin 70)]"]
  show ?thesis by (auto simp: obj_get_def)
qed

text \<open>
  C6 as stated fails: the first session gives the training stress score 0, which is not
  \<^verbatim>\<open>null\<close>, and the second session's 50 overwrites it.
\<close>

theorem first_truthy_value_wins_counterexample:
  "parse (scripted [tss_session 0, tss_session 50]) [] [] (fit_file 2) Undefined
   = Some (None, [(''distance'', Num (Fin 50)), (''totalTime'', Num (Fin 7200)),
                  (''tss'', Num (Fin 50))])
   \<and> session_value (snd (tss_session 0)) (Key ''training_stress_score'') = Num (Fin 0)
   \<and> \<not> isNil (Num (Fin 0))"
  by code_simp


section \<open>The device list\<close>

lemma baseUniq_subset: "set (baseUniq f xs seen) \<subseteq> set xs"
  by (induction xs arbitrary: seen) auto

lemma baseUniq_keys: "f ` set (baseUniq f xs seen) = f ` set xs - set seen"
  by (induction xs arbitrary: seen) auto

lemma baseUniq_distinct: "distinct (map f (baseUniq f xs seen))"
proof (induction xs arbitrary: seen)
  case Nil
  then show ?case by simp
next
  case (Cons x xs)
  have "f x \<notin> f ` set (baseUniq f xs (f x # seen))"
    by (simp add: baseUniq_keys)
  then show ?case using Cons.IH by simp
qed

lemma uniqBy_subset: "set (uniqBy xs f) \<subseteq> set xs"
  by (simp add: uniqBy_def baseUniq_subset)

lemma uniqBy_keys: "f ` set (uniqBy xs f) = f ` set xs"
  by (simp add: uniqBy_def baseUniq_keys)

lemma uniqBy_distinct: "distinct (map f (uniqBy xs f))"
  by (simp add: uniqBy_def baseUniq_distinct)

lemma stripped:
  "CHR ''_'' \<notin> set (strip_spaces (strip_underscores s))"
  "\<forall>c\<in>set (strip_spaces (strip_underscores s)). \<not> is_space c"
  by (simp_all add: strip_spaces_def strip_underscores_def)

lemma getDeviceString_stripped:
  "CHR ''_'' \<notin> set (getDeviceString d)" "\<forall>c\<in>set (getDeviceString d). \<not> is_space c"
  unfolding getDeviceString_def by (rule stripped)+

lemma device_filter_iff:
  "device_filter d \<longleftrightarrow> truthy (js_prop d ''manufacturer'') \<and> truthy (js_prop d ''serial_number'')"
  by (simp add: device_filter_def js_and_def)

lemma add_devices_list:
  "devices \<noteq> [] \<Longrightarrow>
   obj_get (decode_pedalBalance (decode_primaryBenefit (add_devices devices a))) ''devices''
   = Arr (map Str (map getDeviceString (uniqBy (filter device_filter devices) getDeviceString)))"
  by (simp add: obj_get_def decode_pedalBalance_other decode_primaryBenefit_other
        add_devices_def Let_def update_conv' comp_def)

lemma distinct_count_list: "distinct xs \<Longrightarrow> x \<in> set xs \<Longrightarrow> count_list xs x = 1"
  by (induction xs) (auto simp: count_list_0_iff)

text \<open>
  C5 (as amended). Take a parse that passes the header checks, whose loop ends with at
  least one device-info message and whose sessions are read without an error. The
  summary's \<^verbatim>\<open>devices\<close> is then an array of texts \<open>ids\<close> such that: every entry is the
  identity text \<open>getDeviceString d\<close> of a decoded device \<open>d\<close> whose manufacturer and serial
  number are both truthy; no entry contains an underscore or a white-space character; no
  text occurs twice; every decoded device with a manufacturer and a serial number has
  its identity text in the list exactly once, so that records with equal identity texts
  collapse into one entry whatever their other properties are; and two such devices
  whose identity texts differ have two different entries. The identity text is compared
  after the underscores and the white space are stripped, so product names that differ
  in these characters only give one entry.
\<close>

theorem device_list:
  assumes "check_header blob = None"
    and "decode readRecord product blob options = Some (Inr st)"
    and "from_sessions (lists st Sessions) (lists st Sports) fitFileActivity = (None, a1)"
    and "lists st Devices \<noteq> []"
  shows "\<exists>a' ids. parse readRecord product fitFileActivity blob options = Some (None, a')
     \<and> obj_get a' ''devices'' = Arr (map Str ids)
     \<and> distinct ids
     \<and> (\<forall>id\<in>set ids. \<exists>d\<in>set (lists st Devices).
            truthy (js_prop d ''manufacturer'') \<and> truthy (js_prop d ''serial_number'')
            \<and> id = getDeviceString d)
     \<and> (\<forall>id\<in>set ids. CHR ''_'' \<notin> set id \<and> (\<forall>c\<in>set id. \<not> is_space c))
     \<and> (\<forall>d\<in>set (lists st Devices).
            truthy (js_prop d ''manufacturer'') \<and> truthy (js_prop d ''serial_number'')
            \<longrightarrow> count_list ids (getDeviceString d) = 1)
     \<and> (\<forall>d\<in>set (lists st Devices). \<forall>d'\<in>set (lists st Devices).
            truthy (js_prop d ''manufacturer'') \<and> truthy (js_prop d ''serial_number'')
            \<and> truthy (js_prop d' ''manufacturer'') \<and> truthy (js_prop d' ''serial_number'')
            \<and> getDeviceString d \<noteq> getDeviceString d'
            \<longrightarrow> (\<exists>i j. i < length ids \<and> j < length ids \<and> i \<noteq> j
                    \<and> ids ! i = getDeviceString d \<and> ids ! j = getDeviceString d'))"
proof -
  let ?valid = "uniqBy (filter device_filter (lists st Devices)) getDeviceString"
  let ?ids = "map getDeviceString ?valid"
  let ?b = "add_workout (fitObj st) (round_fields a1)"
  let ?a' = "decode_pedalBalance (decode_primaryBenefit (add_devices (lists st Devices) ?b))"
  have p: "parse readRecord product fitFileActivity blob options = Some (None, ?a')"
    using assms(1-3) by (simp add: parse_decoded aggregate_ok)
  have l: "obj_get ?a' ''devices'' = Arr (map Str ?ids)"
    using assms(4) by (rule add_devices_list)
  have dist: "distinct ?ids" by (rule uniqBy_distinct)
  have set_ids: "set ?ids = getDeviceString ` set (filter device_filter (lists st Devices))"
    by (simp add: uniqBy_keys)
  have valid: "\<forall>id\<in>set ?ids. \<exists>d\<in>set (lists st Devices).
            truthy (js_prop d ''manufacturer'') \<and> truthy (js_prop d ''serial_number'')
            \<and> id = getDeviceString d"
    unfolding set_ids by (auto simp: device_filter_iff)
  have clean: "\<forall>id\<in>set ?ids. CHR ''_'' \<notin> set id \<and> (\<forall>c\<in>set id. \<not> is_space c)"
    unfolding set_ids using getDeviceString_stripped by auto
  have listed: "getDeviceString d \<in> set ?ids"
    if "d \<in> set (lists st Devices)"
      "truthy (js_prop d ''manufacturer'') \<and> truthy (js_prop d ''serial_number'')" for d
    using that unfolding set_ids by (auto simp: device_filter_iff)
  have once: "\<forall>d\<in>set (lists st Devices).
            truthy (js_prop d ''manufacturer'') \<and> truthy (js_prop d ''serial_number'')
            \<longrightarrow> count_list ?ids (getDeviceString d) = 1"
  proof (intro ballI impI)
    fix d assume "d \<in> set (lists st Devices)"
      and "truthy (js_prop d ''manufacturer'') \<and> truthy (js_prop d ''serial_number'')"
    then have "getDeviceString d \<in> set ?ids" by (rule listed)
    with dist show "count_list ?ids (getDeviceString d) = 1" by (rule distinct_count_list)
  qed
  have apart: "\<forall>d\<in>set (lists st Devices). \<forall>d'\<in>set (lists st Devices).
            truthy (js_prop d ''manufacturer'') \<and> truthy (js_prop d ''serial_number'')
            \<and> truthy (js_prop d' ''manufacturer'') \<and> truthy (js_prop d' ''serial_number'')
            \<and> getDeviceString d \<noteq> getDeviceString d'
            \<longrightarrow> (\<exists>i j. i < length ?ids \<and> j < length ?ids \<and> i \<noteq> j
                    \<and> ?ids ! i = getDeviceString d \<and> ?ids ! j = getDeviceString d')"
  proof (intro ballI impI)
    fix d d' assume m: "d \<in> set (lists st Devices)" "d' \<in> set (lists st Devices)"
      and h: "truthy (js_prop d ''manufacturer'') \<and> truthy (js_prop d ''serial_number'')
            \<and> truthy (js_prop d' ''manufacturer'') \<and> truthy (js_prop d' ''serial_number'')
            \<and> getDeviceString d \<noteq> getDeviceString d'"
    from m(1) h have "getDeviceString d \<in> set ?ids" by (intro listed) simp_all
    then obtain i where i: "i < length ?ids" "?ids ! i = getDeviceString d"
      unfolding in_set_conv_nth by blast
    from m(2) h have "getDeviceString d' \<in> set ?ids" by (intro listed) simp_all
    then obtain j where j: "j < length ?ids" "?ids ! j = getDeviceString d'"
      unfolding in_set_conv_nth by blast
    from i j h have "i \<noteq> j" by auto
    with i j show "\<exists>i j. i < length ?ids \<and> j < length ?ids \<and> i \<noteq> j
                    \<and> ?ids ! i = getDeviceString d \<and> ?ids ! j = getDeviceString d'"
      by blast
  qed
  show ?thesis
    apply (rule exI [of _ ?a'])
    apply (rule exI [of _ ?ids])
    apply (intro conjI)
    subgoal by (rule p)
    subgoal by (rule l)
    subgoal by (rule dist)
    subgoal by (rule valid)
    subgoal by (rule clean)
    subgoal by (rule once)
    subgoal by (rule apart)
    done
qed


theorem device_list_witness:
  "\<exists>a' ids.
     parse (scripted [device_info ''edge 530'' [(''timestamp'', DateV 1000)],
                      device_info ''edge_530'' [(''timestamp'', DateV 2000),
                                                (''battery_status'', Str ''ok'')],
                      device_info ''hrm_pro'' [],
                      (''device_info'', Obj [(''manufacturer'', Str ''garmin'')])])
       [] [] (fit_file 4) Undefined = Some (None, a')
     \<and> obj_get a' ''devices'' = Arr (map Str ids) \<and> distinct ids
     \<and> count_list ids ''garmin.edge530.123456'' = 1
     \<and> (\<exists>i j. i < length ids \<and> j < length ids \<and> i \<noteq> j
           \<and> ids ! i = ''garmin.edge530.123456'' \<and> ids ! j = ''garmin.hrmpro.123456'')"
proof -
  let ?d1 = "device_info ''edge 530'' [(''timestamp'', DateV 1000)]"
  let ?d2 = "device_info ''edge_530'' [(''timestamp'', DateV 2000), (''battery_status'', Str ''ok'')]"
  let ?d3 = "device_info ''hrm_pro'' []"
  let ?script = "[?d1, ?d2, ?d3, (''device_info'', Obj [(''manufacturer'', Str ''garmin'')])]"
  let ?st = "replay ?script"
  have len: "length ?script = 4" by simp
  have d: "decode (scripted ?script) [] (fit_file 4) Undefined = Some (Inr ?st)"
    using decode_replay [of ?script Undefined, unfolded len] by simp
  have "lists ?st Sessions = []" by code_simp
  then have f: "from_sessions (lists ?st Sessions) (lists ?st Sports) [] = (None, [])"
    by (simp add: from_sessions_none)
  have ne: "lists ?st Devices \<noteq> []" by code_simp
  have m: "snd ?d2 \<in> set (lists ?st Devices)" "snd ?d3 \<in> set (lists ?st Devices)"
    by code_simp+
  have t: "truthy (js_prop (snd ?d2) ''manufacturer'') \<and> truthy (js_prop (snd ?d2) ''serial_number'')
           \<and> truthy (js_prop (snd ?d3) ''manufacturer'') \<and> truthy (js_prop (snd ?d3) ''serial_number'')"
    by code_simp
  have g: "getDeviceString (snd ?d2) = ''garmin.edge530.123456''"
    "getDeviceString (snd ?d3) = ''garmin.hrmpro.123456''"
    by code_simp+
  have ne_g: "getDeviceString (snd ?d2) \<noteq> getDeviceString (snd ?d3)"
    unfolding g by simp
  from device_list [OF check_header_fit_file d f ne]
  obtain a' ids where r: "parse (scripted ?script) [] [] (fit_file 4) Undefined = Some (None, a')"
      "obj_get a' ''devices'' = Arr (map Str ids)" "distinct ids"
      "\<forall>d\<in>set (lists ?st Devices).
            truthy (js_prop d ''manufacturer'') \<and> truthy (js_prop d ''serial_number'')
            \<longrightarrow> count_list ids (getDeviceString d) = 1"
      "\<forall>d\<in>set (lists ?st Devices). \<forall>d'\<in>set (lists ?st Devices).
            truthy (js_prop d ''manufacturer'') \<and> truthy (js_prop d ''serial_number'')
            \<and> truthy (js_prop d' ''manufacturer'') \<and> truthy (js_prop d' ''serial_number'')
            \<and> getDeviceString d \<noteq> getDeviceString d'
            \<longrightarrow> (\<exists>i j. i < length ids \<and> j < length ids \<and> i \<noteq> j
                    \<and> ids ! i = getDeviceString d \<and> ids ! j = getDeviceString d')"
    by blast
  from r(4) m(1) t have c: "count_list ids ''garmin.edge530.123456'' = 1"
    unfolding g(1) [symmetric] by blast
  from r(5) m t ne_g have "\<exists>i j. i < length ids \<and> j < length ids \<and> i \<noteq> j
                    \<and> ids ! i = getDeviceString (snd ?d2) \<and> ids ! j = getDeviceString (snd ?d3)"
    by blast
  then have e: "\<exists>i j. i < length ids \<and> j < length ids \<and> i \<noteq> j
           \<and> ids ! i = ''garmin.edge530.123456'' \<and> ids ! j = ''garmin.hrmpro.123456''"
    unfolding g .
  from r(1-3) c e show ?thesis by blast
qed

text \<open>
  C5 as stated fails: two device-info records with the same manufacturer and serial
  number that differ in the product name give two entries.
\<close>

theorem device_list_counterexample:
  "parse (scripted [device_info ''edge 530'' [], device_info ''hrm_pro'' []]) [] []
     (fit_file 2) Undefined
   = Some (None, [(''devices'', Arr [Str ''garmin.edge530.123456'', Str ''garmin.hrmpro.123456''])])"
  by code_simp


section \<open>The paused time\<close>








section \<open>The matching activity\<close>

lemma find_first:
  "xs = pre @ a # post \<Longrightarrow> P a \<Longrightarrow> \<forall>b\<in>set pre. \<not> P b \<Longrightarrow> List.find P xs = Some a"
  by (induction pre arbitrary: xs) auto

lemma find_none: "\<forall>b\<in>set xs. \<not> P b \<Longrightarrow> List.find P xs = None"
  by (simp add: find_None_iff)

lemma find_holds: "List.find P xs = Some a \<Longrightarrow> P a"
  by (auto simp: find_Some_iff)

lemma tolerance_source:
  assumes "obj_get a ''totalTime'' = Undefined \<or> (\<exists>x. obj_get a ''totalTime'' = Num x)"
  shows "js_ge (obj_get a ''totalTime'') (Num (js_sub (Num (Fin T)) (Num (Fin 60))))
           \<and> js_le (obj_get a ''totalTime'') (js_add (Num (Fin T)) (Num (Fin 60)))
         \<longleftrightarrow> within_tolerance T a"
proof -
  from assms consider "obj_get a ''totalTime'' = Undefined" | "obj_get a ''totalTime'' = Num NaN"
    | t where "obj_get a ''totalTime'' = Num (Fin t)"
    by (metis jsnum.exhaust)
  then show ?thesis
    by cases (simp_all add: within_tolerance_def js_ge_def js_le_def js_sub_def js_add_def)
qed

lemma select_activity_typed:
  assumes "js_prop activity ''totalTime'' = Num (Fin T)"
    and "\<forall>a\<in>set activities. obj_get a ''totalTime'' = Undefined
            \<or> (\<exists>x. obj_get a ''totalTime'' = Num x)"
  shows "select_activity activity activities
         = (if activities = [] then Inr Null
            else case List.find (within_tolerance T) activities of
                   None \<Rightarrow> Inl (TypeError ''Cannot read properties of undefined'')
                 | Some result \<Rightarrow> Inr (Obj result))"
proof -
  have "List.find (\<lambda>a. js_ge (obj_get a ''totalTime'') (Num (js_sub (Num (Fin T)) (Num (Fin 60))))
                       \<and> js_le (obj_get a ''totalTime'') (js_add (Num (Fin T)) (Num (Fin 60))))
          activities
        = List.find (within_tolerance T) activities"
    using assms(2) by (intro find_cong refl) (simp add: tolerance_source)
  then show ?thesis
    by (simp add: select_activity_def assms(1) Let_def)
qed

text \<open>
  The selection among the stored activities. Let \<open>activities\<close> be the stored activities
  that the searches of the start-time window return, let the target's total time be the
  number \<open>T\<close>, and let every stored activity have a number, or nothing, as its total
  time. Then: the first activity of the list whose total time lies within 60 seconds of
  \<open>T\<close> (bounds included) is the result; when no activity of the list does, the result is
  \<^verbatim>\<open>null\<close> for an empty list and \<^verbatim>\<open>undefined\<close> otherwise; and an activity outside the
  tolerance is never the result.
\<close>

lemma matching_activity_selection:
  assumes "find_activities search user activity (if source = [] then ''any'' else source)
           = Inr activities"
    and "js_prop activity ''totalTime'' = Num (Fin T)"
    and "\<forall>a\<in>set activities. obj_get a ''totalTime'' = Undefined
            \<or> (\<exists>x. obj_get a ''totalTime'' = Num x)"
  shows "(activities = pre @ a # post \<and> within_tolerance T a
            \<and> (\<forall>b\<in>set pre. \<not> within_tolerance T b)
          \<longrightarrow> getMatchingActivity search user activity source = Obj a)
     \<and> ((\<forall>b\<in>set activities. \<not> within_tolerance T b)
          \<longrightarrow> getMatchingActivity search user activity source
              = (if activities = [] then Null else Undefined)
            \<and> isNil (getMatchingActivity search user activity source))
     \<and> (\<forall>b\<in>set activities. \<not> within_tolerance T b
          \<longrightarrow> getMatchingActivity search user activity source \<noteq> Obj b)"
proof -
  let ?r = "getMatchingActivity search user activity source"
  have r: "?r = (case select_activity activity activities of Inl e \<Rightarrow> Undefined | Inr v \<Rightarrow> v)"
    using assms(1) by (simp add: getMatchingActivity_def Let_def)
  note sel = select_activity_typed [OF assms(2,3)]
  have first: "?r = Obj a"
    if "activities = pre @ a # post" "within_tolerance T a" "\<forall>b\<in>set pre. \<not> within_tolerance T b"
  proof -
    have "List.find (within_tolerance T) activities = Some a"
      using that by (rule find_first)
    moreover have "activities \<noteq> []" using that(1) by simp
    ultimately show ?thesis by (simp add: r sel)
  qed
  have none: "?r = (if activities = [] then Null else Undefined) \<and> isNil ?r"
    if "\<forall>b\<in>set activities. \<not> within_tolerance T b"
    using find_none [OF that] by (simp add: r sel)
  have never: "?r \<noteq> Obj b" if "b \<in> set activities" "\<not> within_tolerance T b" for b
  proof (cases "List.find (within_tolerance T) activities")
    case None
    then show ?thesis by (simp add: r sel)
  next
    case (Some c)
    then have "within_tolerance T c" by (rule find_holds)
    then have "c \<noteq> b" using that(2) by auto
    moreover have "activities \<noteq> []" using that(1) by auto
    ultimately show ?thesis using Some by (simp add: r sel)
  qed
  show ?thesis using first none never by blast
qed

lemma matching_activity_selection_example:
  "getMatchingActivity
     (stored [candidate ''a'' 1700000030000 3620, candidate ''b'' 1700000000000 5000])
     example_user example_activity ''garmin''
   = Obj (candidate ''a'' 1700000030000 3620)
   \<and> getMatchingActivity (stored [candidate ''b'' 1700000000000 5000])
       example_user example_activity ''garmin''
     = Undefined"
proof (intro conjI)
  let ?a = "candidate ''a'' 1700000030000 3620" and ?b = "candidate ''b'' 1700000000000 5000"
  have f: "find_activities (stored [?a, ?b]) example_user example_activity
             (if ''garmin'' = [] then ''any'' else ''garmin'') = Inr [?a, ?b]"
    by (simp add: find_activities_def stored_def Let_def)
  have T: "js_prop example_activity ''totalTime'' = Num (Fin 3600)"
    by (simp add: example_activity_def obj_get_def)
  have ty: "\<forall>c\<in>set [?a, ?b]. obj_get c ''totalTime'' = Undefined
            \<or> (\<exists>x. obj_get c ''totalTime'' = Num x)"
    by (simp add: candidate_def obj_get_def)
  have w: "within_tolerance 3600 ?a"
    by (simp add: within_tolerance_def candidate_def obj_get_def)
  from matching_activity_selection [OF f T ty, of "[]" ?a "[?b]"]
  show "getMatchingActivity (stored [?a, ?b]) example_user example_activity ''garmin'' = Obj ?a"
    using w by simp
next
  let ?b = "candidate ''b'' 1700000000000 5000"
  have f: "find_activities (stored [?b]) example_user example_activity
             (if ''garmin'' = [] then ''any'' else ''garmin'') = Inr [?b]"
    by (simp add: find_activities_def stored_def Let_def)
  have T: "js_prop example_activity ''totalTime'' = Num (Fin 3600)"
    by (simp add: example_activity_def obj_get_def)
  have ty: "\<forall>c\<in>set [?b]. obj_get c ''totalTime'' = Undefined
            \<or> (\<exists>x. obj_get c ''totalTime'' = Num x)"
    by (simp add: candidate_def obj_get_def)
  have w: "\<not> within_tolerance 3600 ?b"
    by (simp add: within_tolerance_def candidate_def obj_get_def)
  from matching_activity_selection [OF f T ty, of "[]" ?b "[]"]
  show "getMatchingActivity (stored [?b]) example_user example_activity ''garmin'' = Undefined"
    using w by simp
qed


text \<open>
  C3 (a slip of the code). The target activity lasts 3600 seconds and the search of the
  start-time window returns one stored activity, of 5000 seconds. No candidate lies
  within the tolerance, and the claim has the matcher report this with \<^verbatim>\<open>null\<close>, as the
  \<^verbatim>\<open>return null\<close> of the branch \<^verbatim>\<open>if (!result)\<close> would. The branch first builds its log line
  from \<^verbatim>\<open>result.totalTime\<close>, where \<^verbatim>\<open>result\<close> is \<^verbatim>\<open>undefined\<close>: the read throws a
  \<^verbatim>\<open>TypeError\<close>, the \<^verbatim>\<open>catch\<close> block logs it and returns nothing, and the result of the
  call is \<^verbatim>\<open>undefined\<close>. A search without any result does end with \<^verbatim>\<open>null\<close>.
\<close>

theorem matching_activity_no_match:
  "find_activities (stored [candidate ''b'' 1700000000000 5000]) example_user example_activity
     ''garmin'' = Inr [candidate ''b'' 1700000000000 5000]
   \<and> select_activity example_activity [candidate ''b'' 1700000000000 5000]
     = Inl (TypeError ''Cannot read properties of undefined'')
   \<and> getMatchingActivity (stored [candidate ''b'' 1700000000000 5000]) example_user
       example_activity ''garmin'' = Undefined
   \<and> getMatchingActivity (stored []) example_user example_activity ''garmin'' = Null"
  by code_simp


end
